theory Spec2Isabelle
  imports Complex_Main "HOL-Library.Stream"
begin

section \<open>Numbers and strings of the Python source\<close>

text \<open>
  The repository is two Python modules: \<^verbatim>\<open>backend/main.py\<close> (the rule-based scorer
  \<^verbatim>\<open>RuleBasedFraudDetection\<close>) and \<^verbatim>\<open>backend/data_generator.py\<close> (the synthetic
  \<^verbatim>\<open>TransactionDataGenerator\<close>).

  Python's \<^verbatim>\<open>float\<close> is modelled by \<^typ>\<open>real\<close>: every sum, product and comparison
  is the exact one, the binary64 rounding of the interpreter is not part of the model.
  Where the interpreter's rounded sum lands just beside a threshold that the exact sum
  meets (the contributions 0.05, 0.15, 0.2 and 0.2 against the fraud threshold 0.6), the
  model follows the exact sum; no theorem below depends on the side such a sum falls on.
  Python's unbounded \<^verbatim>\<open>int\<close> is \<^typ>\<open>int\<close>. Strings are \<^typ>\<open>string\<close>; the case
  mappings \<^verbatim>\<open>str.lower\<close> and \<^verbatim>\<open>str.upper\<close> act on the 26 ASCII letters and leave
  every other character as it is.
\<close>

definition ascii_uppercase :: string where
  "ascii_uppercase = ''ABCDEFGHIJKLMNOPQRSTUVWXYZ''"

definition ascii_lowercase :: string where
  "ascii_lowercase = ''abcdefghijklmnopqrstuvwxyz''"

definition lower_char :: "char \<Rightarrow> char" where
  "lower_char c =
     (case map_of (zip ascii_uppercase ascii_lowercase) c of Some d \<Rightarrow> d | None \<Rightarrow> c)"

definition upper_char :: "char \<Rightarrow> char" where
  "upper_char c =
     (case map_of (zip ascii_lowercase ascii_uppercase) c of Some d \<Rightarrow> d | None \<Rightarrow> c)"

definition lower :: "string \<Rightarrow> string" where
  "lower s = map lower_char s"

definition upper :: "string \<Rightarrow> string" where
  "upper s = map upper_char s"

text \<open>
  \<^verbatim>\<open>d.get(k, default)\<close> on a dictionary literal, the literal kept as the list of its
  items.
\<close>

definition dict_get :: "('k \<times> 'v) list \<Rightarrow> 'k \<Rightarrow> 'v \<Rightarrow> 'v" where
  "dict_get d k dflt = (case map_of d k of Some v \<Rightarrow> v | None \<Rightarrow> dflt)"

text \<open>
  \<^verbatim>\<open>x % m\<close> on floats for a positive modulus: the result has the sign of \<open>m\<close>, so it
  is \<open>x - m * floor (x / m)\<close>.
\<close>

definition float_mod :: "real \<Rightarrow> real \<Rightarrow> real" where
  "float_mod x m = x - m * of_int \<lfloor>x / m\<rfloor>"

text \<open>
  \<^verbatim>\<open>round(x, n)\<close>: the closest multiple of \<open>10 ^ -n\<close>, a tie going to the even
  multiple.
\<close>

definition round_half_even :: "real \<Rightarrow> int" where
  "round_half_even x =
     (let f = \<lfloor>x\<rfloor>; d = x - of_int f
      in if d < 1 / 2 then f
         else if 1 / 2 < d then f + 1
         else if even f then f else f + 1)"

definition py_round :: "real \<Rightarrow> nat \<Rightarrow> real" where
  "py_round x n = of_int (round_half_even (x * 10 ^ n)) / 10 ^ n"


section \<open>Transactions\<close>

text \<open>
  A transaction is a Python dictionary with string keys. The record has one optional
  field for each key that the two modules read or write; \<open>None\<close> is an absent key.
  The scorer reads \<^verbatim>\<open>amount\<close>, \<^verbatim>\<open>merchant\<close>, \<^verbatim>\<open>location\<close>,
  \<^verbatim>\<open>time_of_day\<close> and \<^verbatim>\<open>card_type\<close>, the keys of the \<^verbatim>\<open>Transaction\<close> schema
  of main.py, always through \<^verbatim>\<open>transaction.get(key, default)\<close>. The generator writes
  \<^verbatim>\<open>amount\<close>, \<^verbatim>\<open>merchant_type\<close>, \<^verbatim>\<open>location\<close>, \<^verbatim>\<open>time_of_day\<close>,
  \<^verbatim>\<open>card_type\<close> and \<^verbatim>\<open>user_profile\<close>, and a session adds \<^verbatim>\<open>timestamp\<close>
  and \<^verbatim>\<open>session_id\<close>. A present key holds a value of the type the schema or the
  generator gives it; a timestamp is a number of microseconds.
\<close>

record transaction =
  amount :: "real option"
  merchant :: "string option"
  merchant_type :: "string option"
  location :: "string option"
  time_of_day :: "string option"
  card_type :: "string option"
  user_profile :: "string option"
  timestamp :: "int option"
  session_id :: "string option"

text \<open>The empty dictionary.\<close>

definition empty_transaction :: transaction where
  "empty_transaction =
     \<lparr>amount = None, merchant = None, merchant_type = None, location = None,
      time_of_day = None, card_type = None, user_profile = None, timestamp = None,
      session_id = None\<rparr>"

text \<open>\<^verbatim>\<open>transaction.get(key, default)\<close> on such a field.\<close>

definition get_or :: "'a option \<Rightarrow> 'a \<Rightarrow> 'a" where
  "get_or field dflt = (case field of Some v \<Rightarrow> v | None \<Rightarrow> dflt)"

section \<open>Errors and the sources of randomness\<close>

text \<open>
  An exception is a value: a function that can raise returns \<open>Inl\<close> of the error.
\<close>

datatype error = KeyError | IndexError | ValueError

text \<open>
  The code draws from three sources and reads the clock: the \<^verbatim>\<open>random\<close> module,
  \<^verbatim>\<open>np.random.poisson\<close>, \<^verbatim>\<open>uuid.uuid4\<close> and \<^verbatim>\<open>datetime.now\<close>. Each source is
  the stream of the values it is going to return, so that a theorem about every stream
  is a theorem about every run. A value of \<^verbatim>\<open>random.random()\<close> lies in \<open>[0, 1)\<close>;
  the stream of \<^verbatim>\<open>uuid4\<close> holds the strings \<^verbatim>\<open>str(uuid.uuid4())\<close>; the clock is in
  microseconds.
\<close>

typedef unit_draw = "{u :: real. 0 \<le> u \<and> u < 1}"
  by (rule exI [of _ 0]) simp

record world =
  random_state :: "unit_draw stream"
  poisson_state :: "nat stream"
  uuid4_state :: "string stream"
  clock :: int

type_synonym 'a gen = "world \<Rightarrow> error + ('a \<times> world)"

definition gen_return :: "'a \<Rightarrow> 'a gen" where
  "gen_return x w = Inr (x, w)"

definition gen_raise :: "error \<Rightarrow> 'a gen" where
  "gen_raise e w = Inl e"

definition gen_bind :: "'a gen \<Rightarrow> ('a \<Rightarrow> 'b gen) \<Rightarrow> 'b gen" where
  "gen_bind m f w = (case m w of Inl e \<Rightarrow> Inl e | Inr (x, w') \<Rightarrow> f x w')"

text \<open>\<^verbatim>\<open>random.random()\<close>: the next value of the stream.\<close>

definition random_random :: "real gen" where
  "random_random w =
     Inr (Rep_unit_draw (shd (random_state w)), w\<lparr>random_state := stl (random_state w)\<rparr>)"

text \<open>\<^verbatim>\<open>random.uniform(a, b)\<close> is \<^verbatim>\<open>a + (b - a) * random()\<close>.\<close>

definition uniform :: "real \<Rightarrow> real \<Rightarrow> real gen" where
  "uniform a b = gen_bind random_random (\<lambda>u. gen_return (a + (b - a) * u))"

text \<open>
  The library's \<^verbatim>\<open>_randbelow(n)\<close>, an index below \<open>n\<close>: here the draw scaled to
  \<open>n\<close>, so that every index is the result of some draw.
\<close>

definition randbelow :: "nat \<Rightarrow> nat gen" where
  "randbelow n = gen_bind random_random (\<lambda>u. gen_return (nat \<lfloor>u * of_nat n\<rfloor>))"

text \<open>\<^verbatim>\<open>random.choice(seq)\<close>, which raises IndexError on an empty sequence.\<close>

definition choice :: "'a list \<Rightarrow> 'a gen" where
  "choice seq =
     (if seq = [] then gen_raise IndexError
      else gen_bind (randbelow (length seq)) (\<lambda>i. gen_return (seq ! i)))"

text \<open>\<^verbatim>\<open>random.randint(a, b)\<close>, which raises ValueError on an empty range.\<close>

definition randint :: "int \<Rightarrow> int \<Rightarrow> int gen" where
  "randint a b =
     (if b < a then gen_raise ValueError
      else gen_bind (randbelow (nat (b - a + 1))) (\<lambda>i. gen_return (a + int i)))"

text \<open>
  \<^verbatim>\<open>random.choices(population, weights=weights)\<close> with the default \<open>k = 1\<close>: the
  running sums of the weights, then the position of \<^verbatim>\<open>random() * total\<close> among them
  by \<^verbatim>\<open>bisect(cum_weights, x, 0, n - 1)\<close>, which on the ascending sums counts the
  sums up to \<open>x\<close> among the first \<open>n - 1\<close>. The result is a list of one element.
\<close>

fun accumulate :: "real \<Rightarrow> real list \<Rightarrow> real list" where
  "accumulate acc [] = []"
| "accumulate acc (x # xs) = (acc + x) # accumulate (acc + x) xs"

definition bisect :: "real list \<Rightarrow> real \<Rightarrow> nat \<Rightarrow> nat" where
  "bisect a x hi = length (takeWhile (\<lambda>c. c \<le> x) (take hi a))"

definition choices :: "'a list \<Rightarrow> real list \<Rightarrow> 'a list gen" where
  "choices population weights =
     (let n = length population;
          cum_weights = accumulate 0 weights
      in if length cum_weights \<noteq> n then gen_raise ValueError
         else if cum_weights = [] then gen_raise IndexError
         else let total = last cum_weights
              in if total \<le> 0 then gen_raise ValueError
                 else gen_bind random_random
                        (\<lambda>u. gen_return [population ! bisect cum_weights (u * total) (n - 1)]))"

text \<open>\<^verbatim>\<open>xs[0]\<close>, and \<^verbatim>\<open>d[k]\<close> on a dictionary literal.\<close>

definition index0 :: "'a list \<Rightarrow> 'a gen" where
  "index0 xs = (case xs of [] \<Rightarrow> gen_raise IndexError | x # _ \<Rightarrow> gen_return x)"

definition dict_index :: "('k \<times> 'v) list \<Rightarrow> 'k \<Rightarrow> 'v gen" where
  "dict_index d k = (case map_of d k of None \<Rightarrow> gen_raise KeyError | Some v \<Rightarrow> gen_return v)"

text \<open>
  \<^verbatim>\<open>np.random.poisson(lam)\<close>, \<^verbatim>\<open>str(uuid.uuid4())\<close> and \<^verbatim>\<open>datetime.now()\<close>. The
  Poisson stream does not depend on \<open>lam\<close>: every natural number is a possible draw
  for every positive mean.
\<close>

definition poisson :: "real \<Rightarrow> nat gen" where
  "poisson lam w = Inr (shd (poisson_state w), w\<lparr>poisson_state := stl (poisson_state w)\<rparr>)"

definition uuid4_str :: "string gen" where
  "uuid4_str w = Inr (shd (uuid4_state w), w\<lparr>uuid4_state := stl (uuid4_state w)\<rparr>)"

definition datetime_now :: "int gen" where
  "datetime_now w = Inr (clock w, w)"


section \<open>The scorer: \<^verbatim>\<open>RuleBasedFraudDetection\<close> in main.py\<close>

text \<open>The constants and tables set in \<^verbatim>\<open>__init__\<close>.\<close>

definition high_amount_threshold :: real where
  "high_amount_threshold = 2000.0"

definition very_high_amount_threshold :: real where
  "very_high_amount_threshold = 5000.0"

definition merchant_risk_scores :: "(string \<times> real) list" where
  "merchant_risk_scores =
     [(''online'', 0.4), (''atm'', 0.3), (''gas'', 0.1), (''grocery'', 0.05),
      (''restaurant'', 0.15)]"

definition location_risk_scores :: "(string \<times> real) list" where
  "location_risk_scores =
     [(''CA'', 0.3), (''NY'', 0.25), (''FL'', 0.35), (''TX'', 0.2), (''IL'', 0.15)]"

definition time_risk_scores :: "(string \<times> real) list" where
  "time_risk_scores =
     [(''night'', 0.4), (''evening'', 0.2), (''morning'', 0.1), (''afternoon'', 0.15)]"

definition card_risk_scores :: "(string \<times> real) list" where
  "card_risk_scores = [(''prepaid'', 0.4), (''credit'', 0.2), (''debit'', 0.1)]"

text \<open>
  \<^verbatim>\<open>calculate_risk_score\<close>, in two steps that the source writes as one body: the
  amount tier (the \<^verbatim>\<open>if/elif/elif\<close> chain, which adds nothing when no branch
  matches), then the four lookups added in the source's order and the cap.
\<close>

definition amount_risk :: "real \<Rightarrow> real" where
  "amount_risk a =
     (if a > very_high_amount_threshold then 0.5
      else if a > high_amount_threshold then 0.3
      else if a < 1 then 0.2
      else 0)"

definition calculate_risk_score :: "transaction \<Rightarrow> real" where
  "calculate_risk_score t =
     (let risk_score = 0.0;
          amount = get_or (amount t) 0;
          risk_score = risk_score + amount_risk amount;
          merchant = lower (get_or (merchant t) '''');
          risk_score = risk_score + dict_get merchant_risk_scores merchant 0.2;
          location = upper (get_or (location t) '''');
          risk_score = risk_score + dict_get location_risk_scores location 0.2;
          time_of_day = lower (get_or (time_of_day t) '''');
          risk_score = risk_score + dict_get time_risk_scores time_of_day 0.2;
          card_type = lower (get_or (card_type t) '''');
          risk_score = risk_score + dict_get card_risk_scores card_type 0.2
      in min risk_score 1.0)"

text \<open>
  \<^verbatim>\<open>detect_anomalies\<close>: the source appends a reason to a list for each rule that
  fires and returns whether the list is non-empty.
\<close>

definition anomalies :: "transaction \<Rightarrow> string list" where
  "anomalies t =
     (let amount = get_or (amount t) 0;
          merchant = lower (get_or (merchant t) '''');
          time_of_day = lower (get_or (time_of_day t) '''');
          anomalies = [];
          anomalies =
            (if merchant = ''online'' \<and> time_of_day = ''night'' \<and> amount > 1000
             then anomalies @ [''Large online purchase at night''] else anomalies);
          anomalies =
            (if float_mod amount 100 = 0 \<and> amount > 500
             then anomalies @ [''Round number high amount''] else anomalies);
          anomalies =
            (if merchant = ''atm'' \<and> amount > 800
             then anomalies @ [''High ATM withdrawal''] else anomalies);
          anomalies =
            (if merchant \<in> set [''grocery'', ''gas''] \<and> amount > 300
             then anomalies @ [''Unusually high amount for merchant type''] else anomalies)
      in anomalies)"

definition detect_anomalies :: "transaction \<Rightarrow> bool" where
  "detect_anomalies t = (length (anomalies t) > 0)"

text \<open>
  The scorer object: its three counters, which start at zero, and \<^verbatim>\<open>predict\<close>,
  which returns the result dictionary together with the updated object.
\<close>

record scorer =
  total_transactions :: int
  fraud_detected :: int
  normal_transactions :: int

definition init_scorer :: scorer where
  "init_scorer = \<lparr>total_transactions = 0, fraud_detected = 0, normal_transactions = 0\<rparr>"

record prediction_record =
  prediction :: int
  is_anomaly :: int
  confidence :: real
  risk_score :: real

definition int_of_bool :: "bool \<Rightarrow> int" where
  "int_of_bool b = (if b then 1 else 0)"

definition predict :: "scorer \<Rightarrow> transaction \<Rightarrow> prediction_record \<times> scorer" where
  "predict self t =
     (let self = self\<lparr>total_transactions := total_transactions self + 1\<rparr>;
          risk_score = calculate_risk_score t;
          is_anomaly = detect_anomalies t;
          fraud_threshold = 0.6;
          is_fraud = (risk_score > fraud_threshold \<or> is_anomaly);
          self = (if is_fraud then self\<lparr>fraud_detected := fraud_detected self + 1\<rparr>
                  else self\<lparr>normal_transactions := normal_transactions self + 1\<rparr>);
          confidence = (if is_fraud then min 0.9 (0.5 + risk_score)
                        else max 0.7 (1.0 - risk_score))
      in (\<lparr>prediction = int_of_bool is_fraud,
           is_anomaly = int_of_bool is_anomaly,
           confidence = py_round confidence 3,
           risk_score = py_round risk_score 3\<rparr>, self))"

text \<open>
  \<^verbatim>\<open>get_stats\<close> reads the counters and assigns to none of them; its three simulated
  metrics are draws of \<^verbatim>\<open>random.uniform\<close>, in the order of the dictionary literal.
\<close>

record stats_record =
  stats_total_transactions :: int
  stats_fraud_detected :: int
  stats_normal_transactions :: int
  fraud_rate :: real
  normal_rate :: real
  accuracy :: real
  precision :: real
  recall :: real

definition get_stats :: "scorer \<Rightarrow> stats_record gen" where
  "get_stats self =
     (let fraud_rate =
            (if total_transactions self > 0
             then of_int (fraud_detected self) / of_int (total_transactions self) * 100
             else 0);
          normal_rate =
            (if total_transactions self > 0
             then of_int (normal_transactions self) / of_int (total_transactions self) * 100
             else 0)
      in gen_bind (uniform 85 95) (\<lambda>acc.
         gen_bind (uniform 80 90) (\<lambda>prec.
         gen_bind (uniform 75 85) (\<lambda>rec.
         gen_return
           \<lparr>stats_total_transactions = total_transactions self,
            stats_fraud_detected = fraud_detected self,
            stats_normal_transactions = normal_transactions self,
            fraud_rate = py_round fraud_rate 2,
            normal_rate = py_round normal_rate 2,
            accuracy = py_round acc 2,
            precision = py_round prec 2,
            recall = py_round rec 2\<rparr>))))"

text \<open>
  The calls a client can make on the scorer object, and the object after each call.
  Only \<^verbatim>\<open>predict\<close> assigns to an attribute; a sequence of \<^verbatim>\<open>predict\<close> calls
  threads the object through.
\<close>

datatype call =
  Predict transaction
  | Calculate_risk_score transaction
  | Detect_anomalies transaction
  | Get_stats

fun scorer_after :: "scorer \<Rightarrow> call \<Rightarrow> scorer" where
  "scorer_after self (Predict t) = snd (predict self t)"
| "scorer_after self (Calculate_risk_score t) = self"
| "scorer_after self (Detect_anomalies t) = self"
| "scorer_after self Get_stats = self"

fun predict_calls :: "scorer \<Rightarrow> transaction list \<Rightarrow> scorer" where
  "predict_calls self [] = self"
| "predict_calls self (t # ts) = predict_calls (snd (predict self t)) ts"


section \<open>The generator: \<^verbatim>\<open>TransactionDataGenerator\<close> in data_generator.py\<close>

text \<open>
  The tables set in \<^verbatim>\<open>__init__\<close>. Of the public methods,
  \<^verbatim>\<open>get_merchant_statistics\<close> (a constant dictionary) and \<^verbatim>\<open>simulate_peak_hours\<close>
  (a loop of \<^verbatim>\<open>generate_transaction()\<close> calls, each result tagged with two more keys)
  are not part of this development.
\<close>

definition merchant_types :: "string list" where
  "merchant_types =
     [''grocery'', ''gas'', ''restaurant'', ''online'', ''atm'', ''pharmacy'',
      ''entertainment'', ''travel'', ''unknown'']"

definition time_periods :: "string list" where
  "time_periods = [''morning'', ''afternoon'', ''evening'', ''night'']"

definition card_types :: "string list" where
  "card_types = [''debit'', ''credit'', ''prepaid'']"

definition locations :: "string list" where
  "locations =
     [''New York, NY'', ''Los Angeles, CA'', ''Chicago, IL'', ''Houston, TX'',
      ''Phoenix, AZ'', ''Philadelphia, PA'', ''San Antonio, TX'', ''San Diego, CA'',
      ''Dallas, TX'', ''San Jose, CA'', ''Austin, TX'', ''Jacksonville, FL'',
      ''Fort Worth, TX'', ''Columbus, OH'', ''Charlotte, NC'', ''San Francisco, CA'',
      ''Indianapolis, IN'', ''Seattle, WA'', ''Denver, CO'', ''Boston, MA'',
      ''Unknown Location'', ''Foreign Country'']"

definition merchant_amount_ranges :: "(string \<times> real \<times> real) list" where
  "merchant_amount_ranges =
     [(''grocery'', 5, 200), (''gas'', 20, 120), (''restaurant'', 8, 150),
      (''online'', 10, 2000), (''atm'', 20, 500), (''pharmacy'', 5, 100),
      (''entertainment'', 15, 300), (''travel'', 50, 5000), (''unknown'', 1, 10000)]"

definition hourly_weights :: "(int \<times> real) list" where
  "hourly_weights =
     [(0, 0.5), (1, 0.2), (2, 0.1), (3, 0.1), (4, 0.1), (5, 0.3),
      (6, 0.8), (7, 1.2), (8, 1.5), (9, 1.8), (10, 2.0), (11, 2.2),
      (12, 2.5), (13, 2.3), (14, 2.0), (15, 1.8), (16, 1.9), (17, 2.1),
      (18, 2.3), (19, 2.0), (20, 1.5), (21, 1.2), (22, 0.8), (23, 0.6)]"

record profile =
  avg_daily_transactions :: int
  preferred_merchants :: "string list"
  avg_amount :: real
  fraud_probability :: real

definition user_profiles :: "(string \<times> profile) list" where
  "user_profiles =
     [(''normal_user'',
       \<lparr>avg_daily_transactions = 3,
        preferred_merchants = [''grocery'', ''gas'', ''restaurant''],
        avg_amount = 75, fraud_probability = 0.001\<rparr>),
      (''heavy_user'',
       \<lparr>avg_daily_transactions = 8,
        preferred_merchants = [''online'', ''restaurant'', ''entertainment''],
        avg_amount = 120, fraud_probability = 0.005\<rparr>),
      (''business_user'',
       \<lparr>avg_daily_transactions = 12,
        preferred_merchants = [''travel'', ''online'', ''restaurant''],
        avg_amount = 300, fraud_probability = 0.008\<rparr>),
      (''suspicious_user'',
       \<lparr>avg_daily_transactions = 2,
        preferred_merchants = [''unknown'', ''online'', ''atm''],
        avg_amount = 500, fraud_probability = 0.15\<rparr>)]"

text \<open>
  The dictionary literal with the six keys that both generating functions return.
\<close>

definition generated ::
  "real \<Rightarrow> string \<Rightarrow> string \<Rightarrow> string \<Rightarrow> string \<Rightarrow> string \<Rightarrow> transaction" where
  "generated a m l t c u =
     empty_transaction
       \<lparr>amount := Some a, merchant_type := Some m, location := Some l,
        time_of_day := Some t, card_type := Some c, user_profile := Some u\<rparr>"

text \<open>\<^verbatim>\<open>_hour_to_period\<close> and \<^verbatim>\<open>_generate_realistic_hour\<close>.\<close>

definition hour_to_period :: "int \<Rightarrow> string" where
  "hour_to_period hour =
     (if 6 \<le> hour \<and> hour < 12 then ''morning''
      else if 12 \<le> hour \<and> hour < 18 then ''afternoon''
      else if 18 \<le> hour \<and> hour < 22 then ''evening''
      else ''night'')"

fun index_all :: "('k \<times> 'v) list \<Rightarrow> 'k list \<Rightarrow> 'v list gen" where
  "index_all d [] = gen_return []"
| "index_all d (k # ks) =
     gen_bind (dict_index d k) (\<lambda>v. gen_bind (index_all d ks) (\<lambda>vs. gen_return (v # vs)))"

definition generate_realistic_hour :: "int gen" where
  "generate_realistic_hour =
     (let hours = [0..23]
      in gen_bind (index_all hourly_weights hours) (\<lambda>weights.
         gen_bind (choices hours weights) index0))"

text \<open>
  \<^verbatim>\<open>_generate_normal_transaction\<close>. The draws are made in the order of the source's
  statements.
\<close>

definition generate_normal_transaction :: "profile \<Rightarrow> transaction gen" where
  "generate_normal_transaction profile =
     gen_bind (choice (preferred_merchants profile)) (\<lambda>merchant_type.
     gen_bind (dict_index merchant_amount_ranges merchant_type) (\<lambda>(min_amount, max_amount).
     gen_bind (uniform min_amount max_amount) (\<lambda>base_amount.
     gen_bind (uniform 0.5 1.5) (\<lambda>factor.
       let amount = base_amount * factor * (avg_amount profile / 75);
           amount = py_round (max amount 0.01) 2
       in gen_bind generate_realistic_hour (\<lambda>hour.
          let time_of_day = hour_to_period hour
          in gen_bind (gen_bind (choices locations (replicate 20 5 @ [1, 0.1])) index0)
               (\<lambda>location.
             gen_bind (gen_bind (choices card_types [50, 45, 5]) index0) (\<lambda>card_type.
             gen_return
               (generated amount merchant_type location time_of_day card_type
                  ''normal''))))))))"

text \<open>
  \<^verbatim>\<open>_generate_fraud_transaction\<close>: the archetype is drawn first, then the
  \<^verbatim>\<open>if/elif\<close> chain on it, each branch drawing in the order of its dictionary literal;
  the last branch is the source's default pattern.
\<close>

definition fraud_patterns :: "string list" where
  "fraud_patterns =
     [''high_amount_unknown_merchant'', ''multiple_small_amounts'', ''foreign_location'',
      ''unusual_time'', ''prepaid_card_pattern'']"

definition fraud_transaction_of :: "string \<Rightarrow> transaction gen" where
  "fraud_transaction_of pattern =
     (if pattern = ''high_amount_unknown_merchant'' then
        gen_bind (uniform 1000 15000) (\<lambda>a.
        gen_bind (choice [''Unknown Location'', ''Foreign Country'']) (\<lambda>l.
        gen_bind (choice [''credit'', ''prepaid'']) (\<lambda>c.
        gen_return (generated (py_round a 2) ''unknown'' l ''night'' c ''fraudulent''))))
      else if pattern = ''multiple_small_amounts'' then
        gen_bind (uniform 0.01 50) (\<lambda>a.
        gen_bind (choice [''online'', ''unknown'']) (\<lambda>m.
        gen_bind (choice (drop (length locations - 2) locations)) (\<lambda>l.
        gen_bind (choice [''night'', ''evening'']) (\<lambda>t.
        gen_return (generated (py_round a 2) m l t ''prepaid'' ''fraudulent'')))))
      else if pattern = ''foreign_location'' then
        gen_bind (uniform 100 3000) (\<lambda>a.
        gen_bind (choice [''online'', ''travel'', ''unknown'']) (\<lambda>m.
        gen_bind (choice [''night'', ''morning'']) (\<lambda>t.
        gen_bind (choice [''credit'', ''prepaid'']) (\<lambda>c.
        gen_return (generated (py_round a 2) m ''Foreign Country'' t c ''fraudulent'')))))
      else if pattern = ''unusual_time'' then
        gen_bind (uniform 200 5000) (\<lambda>a.
        gen_bind (choice [''atm'', ''online'', ''unknown'']) (\<lambda>m.
        gen_bind (choice ([''Unknown Location''] @ take 10 locations)) (\<lambda>l.
        gen_bind (choice card_types) (\<lambda>c.
        gen_return (generated (py_round a 2) m l ''night'' c ''fraudulent'')))))
      else if pattern = ''prepaid_card_pattern'' then
        gen_bind (uniform 50 1000) (\<lambda>a.
        gen_bind (choice [''online'', ''atm'', ''unknown'']) (\<lambda>m.
        gen_bind (choice locations) (\<lambda>l.
        gen_bind (choice time_periods) (\<lambda>t.
        gen_return (generated (py_round a 2) m l t ''prepaid'' ''fraudulent'')))))
      else
        gen_bind (uniform 500 10000) (\<lambda>a.
        gen_return
          (generated (py_round a 2) ''unknown'' ''Unknown Location'' ''night'' ''prepaid''
             ''fraudulent'')))"

definition generate_fraud_transaction :: "transaction gen" where
  "generate_fraud_transaction = gen_bind (choice fraud_patterns) fraud_transaction_of"

text \<open>
  \<^verbatim>\<open>generate_transaction\<close>. Its parameter \<^verbatim>\<open>user_profile\<close> is \<open>profile_name\<close>
  here (the record field has the name already), \<open>None\<close> when the caller passes no
  profile name.
\<close>

definition generate_transaction :: "string option \<Rightarrow> transaction gen" where
  "generate_transaction profile_name =
     gen_bind
       (case profile_name of
          None \<Rightarrow> gen_bind (choices (map fst user_profiles) [70, 20, 8, 2]) index0
        | Some name \<Rightarrow> gen_return name)
       (\<lambda>user_profile.
     gen_bind (dict_index user_profiles user_profile) (\<lambda>profile.
     gen_bind random_random (\<lambda>r.
       let is_fraud_attempt = (r < fraud_probability profile)
       in if is_fraud_attempt then generate_fraud_transaction
          else generate_normal_transaction profile)))"

text \<open>
  \<^verbatim>\<open>generate_batch_transactions\<close>: the loop over \<^verbatim>\<open>range(count)\<close>, which is empty
  for a count below one.
\<close>

fun batch_loop :: "nat \<Rightarrow> transaction list \<Rightarrow> transaction list gen" where
  "batch_loop 0 transactions = gen_return transactions"
| "batch_loop (Suc n) transactions =
     gen_bind (generate_transaction None) (\<lambda>t. batch_loop n (transactions @ [t]))"

definition generate_batch_transactions :: "int \<Rightarrow> transaction list gen" where
  "generate_batch_transactions count = batch_loop (nat count) []"

text \<open>
  \<^verbatim>\<open>generate_user_session\<close>. The loop carries \<^verbatim>\<open>base_time\<close> and the list; each
  round draws the gap in minutes, generates the transaction, stores the timestamp, and
  stores the first eight characters of a new \<^verbatim>\<open>uuid4\<close> as \<^verbatim>\<open>session_id\<close>.
\<close>

definition timedelta_minutes :: "int \<Rightarrow> int" where
  "timedelta_minutes m = m * 60000000"

fun session_loop ::
  "nat \<Rightarrow> string \<Rightarrow> int \<Rightarrow> transaction list \<Rightarrow> transaction list gen" where
  "session_loop 0 profile_name base_time transactions = gen_return transactions"
| "session_loop (Suc n) profile_name base_time transactions =
     gen_bind (randint 5 120) (\<lambda>minutes.
       let transaction_time = base_time + timedelta_minutes minutes
       in gen_bind (generate_transaction (Some profile_name)) (\<lambda>transaction.
          let transaction = transaction\<lparr>timestamp := Some transaction_time\<rparr>
          in gen_bind uuid4_str (\<lambda>u.
             let transaction = transaction\<lparr>session_id := Some (take 8 u)\<rparr>
             in session_loop n profile_name transaction_time
                  (transactions @ [transaction]))))"

definition generate_user_session :: "string \<Rightarrow> int option \<Rightarrow> transaction list gen" where
  "generate_user_session profile_name session_length =
     gen_bind (dict_index user_profiles profile_name) (\<lambda>profile.
     gen_bind
       (case session_length of
          None \<Rightarrow>
            gen_bind (poisson (of_int (avg_daily_transactions profile)))
              (\<lambda>k. gen_return (max 1 (int k)))
        | Some n \<Rightarrow> gen_return n)
       (\<lambda>session_length.
     gen_bind datetime_now (\<lambda>base_time.
       session_loop (nat session_length) profile_name base_time [])))"


section \<open>Predicates of the specification\<close>

text \<open>
  \<open>returns m P\<close>: from every state of the sources of randomness the computation
  \<open>m\<close> raises nothing and its result satisfies \<open>P\<close>.
\<close>

definition returns :: "'a gen \<Rightarrow> ('a \<Rightarrow> bool) \<Rightarrow> bool" where
  "returns m P = (\<forall>w. case m w of Inl e \<Rightarrow> False | Inr (x, w') \<Rightarrow> P x)"

text \<open>
  The amount of a transaction is present, lies in the closed interval from \<open>lo\<close> to
  \<open>hi\<close> and is a whole number of cents; the same with the fraud tag; and the amount
  is a whole number of cents, at least one.
\<close>

definition amount_within :: "real \<Rightarrow> real \<Rightarrow> transaction \<Rightarrow> bool" where
  "amount_within lo hi t =
     (\<exists>a. amount t = Some a \<and> lo \<le> a \<and> a \<le> hi \<and> (\<exists>k::int. a * 100 = of_int k))"

definition fraud_within :: "real \<Rightarrow> real \<Rightarrow> transaction \<Rightarrow> bool" where
  "fraud_within lo hi t = (user_profile t = Some ''fraudulent'' \<and> amount_within lo hi t)"

definition amount_in_cents :: "transaction \<Rightarrow> bool" where
  "amount_in_cents t =
     (\<exists>a. amount t = Some a \<and> 0.01 \<le> a \<and> (\<exists>k::int. a * 100 = of_int k))"

text \<open>
  A computation leaves the stream of \<^verbatim>\<open>uuid4\<close> strings as it found it.
\<close>

definition keeps_uuid4 :: "'a gen \<Rightarrow> bool" where
  "keeps_uuid4 m = (\<forall>w x w'. m w = Inr (x, w') \<longrightarrow> uuid4_state w' = uuid4_state w)"

text \<open>
  A run for the examples: every \<^verbatim>\<open>random.random()\<close> returns one half, every Poisson
  draw is 3, the clock reads 0, and \<^verbatim>\<open>uuid4\<close> returns the strings of the given stream.
\<close>

definition half_world :: "string stream \<Rightarrow> world" where
  "half_world uuids =
     \<lparr>random_state = sconst (Abs_unit_draw (1 / 2)), poisson_state = sconst 3,
      uuid4_state = uuids, clock = 0\<rparr>"

text \<open>The two transactions of the specification's examples for \<^verbatim>\<open>predict\<close>.\<close>

definition low_risk_example :: transaction where
  "low_risk_example =
     empty_transaction
       \<lparr>amount := Some 50, merchant := Some ''grocery'', location := Some ''TX'',
        time_of_day := Some ''morning'', card_type := Some ''debit''\<rparr>"

definition high_risk_example :: transaction where
  "high_risk_example =
     empty_transaction
       \<lparr>amount := Some 8000, merchant := Some ''unknown'', location := Some ''ZZ'',
        time_of_day := Some ''night'', card_type := Some ''prepaid''\<rparr>"


section \<open>Rounding and the remainder\<close>

lemma round_half_even_ge: "of_int k \<le> x \<Longrightarrow> k \<le> round_half_even x"
proof -
  assume "of_int k \<le> x"
  then have "k \<le> \<lfloor>x\<rfloor>" by (simp add: le_floor_iff)
  then show ?thesis by (simp add: round_half_even_def Let_def)
qed

lemma round_half_even_le: "x \<le> of_int k \<Longrightarrow> round_half_even x \<le> k"
proof -
  assume le: "x \<le> of_int k"
  then have f: "\<lfloor>x\<rfloor> \<le> k" by (simp add: floor_le_iff)
  show ?thesis
  proof (cases "x - of_int \<lfloor>x\<rfloor> < 1 / 2")
    case True
    with f show ?thesis by (simp add: round_half_even_def Let_def)
  next
    case False
    then have "of_int \<lfloor>x\<rfloor> < x" by linarith
    with le have "of_int \<lfloor>x\<rfloor> < (of_int k :: real)" by linarith
    then have "\<lfloor>x\<rfloor> < k" by simp
    then show ?thesis by (simp add: round_half_even_def Let_def)
  qed
qed

lemma py_round_ge: "of_int k / 10 ^ n \<le> x \<Longrightarrow> of_int k / 10 ^ n \<le> py_round x n"
proof -
  assume "of_int k / 10 ^ n \<le> x"
  then have "of_int k \<le> x * 10 ^ n" by (simp add: field_simps)
  then have "k \<le> round_half_even (x * 10 ^ n)" by (rule round_half_even_ge)
  then have "(of_int k :: real) \<le> of_int (round_half_even (x * 10 ^ n))" by simp
  then show ?thesis by (simp add: py_round_def divide_right_mono)
qed

lemma py_round_le: "x \<le> of_int k / 10 ^ n \<Longrightarrow> py_round x n \<le> of_int k / 10 ^ n"
proof -
  assume "x \<le> of_int k / 10 ^ n"
  then have "x * 10 ^ n \<le> of_int k" by (simp add: field_simps)
  then have "round_half_even (x * 10 ^ n) \<le> k" by (rule round_half_even_le)
  then have "(of_int (round_half_even (x * 10 ^ n)) :: real) \<le> of_int k" by simp
  then show ?thesis by (simp add: py_round_def divide_right_mono)
qed

lemma py_round_lower: "lo \<le> x \<Longrightarrow> lo * 10 ^ n \<in> \<int> \<Longrightarrow> lo \<le> py_round x n"
proof -
  assume le: "lo \<le> x" and "lo * 10 ^ n \<in> \<int>"
  then obtain k :: int where "lo * 10 ^ n = of_int k" by (auto elim: Ints_cases)
  then have lo: "lo = of_int k / 10 ^ n" by (simp add: field_simps)
  with le show ?thesis using py_round_ge [of k n x] by simp
qed

lemma py_round_upper: "x \<le> hi \<Longrightarrow> hi * 10 ^ n \<in> \<int> \<Longrightarrow> py_round x n \<le> hi"
proof -
  assume le: "x \<le> hi" and "hi * 10 ^ n \<in> \<int>"
  then obtain k :: int where "hi * 10 ^ n = of_int k" by (auto elim: Ints_cases)
  then have hi: "hi = of_int k / 10 ^ n" by (simp add: field_simps)
  with le show ?thesis using py_round_le [of x k n] by simp
qed

lemma py_round_2_cents: "\<exists>k::int. py_round x 2 * 100 = of_int k"
  by (simp add: py_round_def)

lemma float_mod_100_eq_0_iff:
  "float_mod x 100 = 0 \<longleftrightarrow> (\<exists>k::int. x = 100 * of_int k)"
proof
  assume "float_mod x 100 = 0"
  then have "x = 100 * of_int \<lfloor>x / 100\<rfloor>" by (simp add: float_mod_def)
  then show "\<exists>k::int. x = 100 * of_int k" ..
next
  assume "\<exists>k::int. x = 100 * of_int k"
  then obtain k :: int where "x = 100 * of_int k" ..
  then show "float_mod x 100 = 0" by (simp add: float_mod_def)
qed


section \<open>The risk score\<close>

lemma dict_get_merchant_bounds:
  "0.05 \<le> dict_get merchant_risk_scores k 0.2 \<and> dict_get merchant_risk_scores k 0.2 \<le> 0.4"
  by (simp add: dict_get_def merchant_risk_scores_def)

lemma dict_get_location_bounds:
  "0.15 \<le> dict_get location_risk_scores k 0.2 \<and> dict_get location_risk_scores k 0.2 \<le> 0.35"
  by (simp add: dict_get_def location_risk_scores_def)

lemma dict_get_time_bounds:
  "0.1 \<le> dict_get time_risk_scores k 0.2 \<and> dict_get time_risk_scores k 0.2 \<le> 0.4"
  by (simp add: dict_get_def time_risk_scores_def)

lemma dict_get_card_bounds:
  "0.1 \<le> dict_get card_risk_scores k 0.2 \<and> dict_get card_risk_scores k 0.2 \<le> 0.4"
  by (simp add: dict_get_def card_risk_scores_def)

lemma amount_risk_bounds: "0 \<le> amount_risk a \<and> amount_risk a \<le> 0.5"
  by (simp add: amount_risk_def)

lemma risk_score_bounds: "0.4 \<le> calculate_risk_score t \<and> calculate_risk_score t \<le> 1"
  using amount_risk_bounds [of "get_or (amount t) 0"]
    dict_get_merchant_bounds [of "lower (get_or (merchant t) [])"]
    dict_get_location_bounds [of "upper (get_or (location t) [])"]
    dict_get_time_bounds [of "lower (get_or (time_of_day t) [])"]
    dict_get_card_bounds [of "lower (get_or (card_type t) [])"]
  by (simp add: calculate_risk_score_def Let_def)

text \<open>The definitions that a concrete evaluation of the scorer unfolds.\<close>

lemmas scorer_defs =
  calculate_risk_score_def detect_anomalies_def anomalies_def Let_def get_or_def
  amount_risk_def dict_get_def lower_def upper_def lower_char_def upper_char_def
  ascii_uppercase_def ascii_lowercase_def merchant_risk_scores_def
  location_risk_scores_def time_risk_scores_def card_risk_scores_def
  high_amount_threshold_def very_high_amount_threshold_def float_mod_def
  empty_transaction_def low_risk_example_def high_risk_example_def

lemma low_risk_example_score: "calculate_risk_score low_risk_example = 0.45"
  by (simp add: scorer_defs)

lemma high_risk_example_score: "calculate_risk_score high_risk_example = 1"
  by (simp add: scorer_defs)

lemma low_risk_example_no_anomaly: "\<not> detect_anomalies low_risk_example"
  by (simp add: scorer_defs)

lemma high_risk_example_anomaly: "detect_anomalies high_risk_example"
  by (simp add: scorer_defs)

text \<open>
  C1. For every transaction, whatever its strings and its amount,
  \<^verbatim>\<open>calculate_risk_score\<close> returns a value between 0 and 1: the sum of the amount tier
  and of the merchant, location, time and card contributions, capped at 1. A string
  that is no key of its table contributes the default 0.2.
\<close>

theorem calculate_risk_score_unit_interval:
  "0 \<le> calculate_risk_score t \<and> calculate_risk_score t \<le> 1 \<and>
   calculate_risk_score t =
     min (amount_risk (get_or (amount t) 0)
          + dict_get merchant_risk_scores (lower (get_or (merchant t) [])) 0.2
          + dict_get location_risk_scores (upper (get_or (location t) [])) 0.2
          + dict_get time_risk_scores (lower (get_or (time_of_day t) [])) 0.2
          + dict_get card_risk_scores (lower (get_or (card_type t) [])) 0.2) 1 \<and>
   (m \<notin> fst ` set merchant_risk_scores \<longrightarrow> dict_get merchant_risk_scores m 0.2 = 0.2) \<and>
   (l \<notin> fst ` set location_risk_scores \<longrightarrow> dict_get location_risk_scores l 0.2 = 0.2) \<and>
   (d \<notin> fst ` set time_risk_scores \<longrightarrow> dict_get time_risk_scores d 0.2 = 0.2) \<and>
   (c \<notin> fst ` set card_risk_scores \<longrightarrow> dict_get card_risk_scores c 0.2 = 0.2)"
proof -
  have cap: "calculate_risk_score t =
     min (amount_risk (get_or (amount t) 0)
          + dict_get merchant_risk_scores (lower (get_or (merchant t) [])) 0.2
          + dict_get location_risk_scores (upper (get_or (location t) [])) 0.2
          + dict_get time_risk_scores (lower (get_or (time_of_day t) [])) 0.2
          + dict_get card_risk_scores (lower (get_or (card_type t) [])) 0.2) 1"
    by (simp add: calculate_risk_score_def Let_def)
  have dflt: "k \<notin> fst ` set tab \<Longrightarrow> dict_get tab k v = v"
    for k :: string and tab :: "(string \<times> real) list" and v
    using map_of_eq_None_iff [of tab k] by (simp add: dict_get_def)
  from risk_score_bounds [of t]
  have "0 \<le> calculate_risk_score t \<and> calculate_risk_score t \<le> 1"
    by simp
  with cap dflt show ?thesis by blast
qed

theorem calculate_risk_score_unit_interval_witness:
  "0 \<le> calculate_risk_score high_risk_example \<and>
   calculate_risk_score high_risk_example \<le> 1 \<and>
   calculate_risk_score high_risk_example = 1 \<and>
   ''unknown'' \<notin> fst ` set merchant_risk_scores \<and>
   dict_get merchant_risk_scores ''unknown'' 0.2 = 0.2 \<and>
   ''ZZ'' \<notin> fst ` set location_risk_scores \<and>
   dict_get location_risk_scores ''ZZ'' 0.2 = 0.2 \<and>
   ''noon'' \<notin> fst ` set time_risk_scores \<and>
   dict_get time_risk_scores ''noon'' 0.2 = 0.2 \<and>
   ''gift'' \<notin> fst ` set card_risk_scores \<and>
   dict_get card_risk_scores ''gift'' 0.2 = 0.2"
proof -
  have keys: "''unknown'' \<notin> fst ` set merchant_risk_scores"
    "''ZZ'' \<notin> fst ` set location_risk_scores"
    "''noon'' \<notin> fst ` set time_risk_scores"
    "''gift'' \<notin> fst ` set card_risk_scores"
    by (simp_all add: merchant_risk_scores_def location_risk_scores_def
        time_risk_scores_def card_risk_scores_def)
  from keys high_risk_example_score
    calculate_risk_score_unit_interval
      [of high_risk_example "''unknown''" "''ZZ''" "''noon''" "''gift''"]
  show ?thesis by simp
qed

text \<open>
  C9. \<^verbatim>\<open>calculate_risk_score\<close> returns at least 0.4 for every transaction: the merchant,
  location, time and card lookups contribute at least 0.05, 0.15, 0.1 and 0.1, whatever
  the key, and the amount tier contributes nothing negative. The empty record scores
  exactly 1.
\<close>

theorem calculate_risk_score_at_least_two_fifths:
  "0.4 \<le> calculate_risk_score t \<and>
   0.05 \<le> dict_get merchant_risk_scores m 0.2 \<and>
   0.15 \<le> dict_get location_risk_scores l 0.2 \<and>
   0.1 \<le> dict_get time_risk_scores d 0.2 \<and>
   0.1 \<le> dict_get card_risk_scores c 0.2 \<and>
   calculate_risk_score empty_transaction = 1"
proof -
  have "calculate_risk_score empty_transaction = 1"
    by (simp add: scorer_defs)
  with risk_score_bounds [of t] dict_get_merchant_bounds [of m] dict_get_location_bounds [of l]
    dict_get_time_bounds [of d] dict_get_card_bounds [of c]
  show ?thesis by simp
qed

text \<open>
  The bound is attained: a purchase of 50 at a grocery in IL, in the morning, by debit
  card scores exactly 0.4.
\<close>

theorem calculate_risk_score_at_least_two_fifths_witness:
  "calculate_risk_score
     (empty_transaction
        \<lparr>amount := Some 50, merchant := Some ''Grocery'', location := Some ''il'',
         time_of_day := Some ''morning'', card_type := Some ''DEBIT''\<rparr>) = 0.4 \<and>
   0.4 \<le> calculate_risk_score low_risk_example"
  using calculate_risk_score_at_least_two_fifths [of low_risk_example]
  by (simp add: scorer_defs)


section \<open>The anomaly rules\<close>

text \<open>
  C3. \<^verbatim>\<open>detect_anomalies\<close> returns true exactly when one of the four rules holds:
  (a) the merchant is "online", the time of day is "night" and the amount exceeds 1000;
  (b) the amount is an exact multiple of 100 and exceeds 500; (c) the merchant is "atm"
  and the amount exceeds 800; (d) the merchant is "grocery" or "gas" and the amount
  exceeds 300. Merchant and time of day are compared after lower-casing; an absent
  amount counts as 0 and an absent string as the empty string.
\<close>

theorem detect_anomalies_iff_rules:
  "detect_anomalies t \<longleftrightarrow>
     (let amount = get_or (amount t) 0;
          merchant = lower (get_or (merchant t) []);
          time_of_day = lower (get_or (time_of_day t) [])
      in (merchant = ''online'' \<and> time_of_day = ''night'' \<and> amount > 1000)
       \<or> ((\<exists>k::int. amount = 100 * of_int k) \<and> amount > 500)
       \<or> (merchant = ''atm'' \<and> amount > 800)
       \<or> ((merchant = ''grocery'' \<or> merchant = ''gas'') \<and> amount > 300))"
  unfolding detect_anomalies_def anomalies_def Let_def float_mod_100_eq_0_iff
  by simp

text \<open>
  The specification's two examples, each firing the rule it names, and three
  transactions that fire no rule: 650.5 is above 500 but no multiple of 100, 500 is a
  multiple of 100 but not above 500, and 250.5 at a grocery is not above 300.
\<close>

theorem detect_anomalies_iff_rules_witness:
  "detect_anomalies
     (empty_transaction
        \<lparr>amount := Some 1500, merchant := Some ''online'', time_of_day := Some ''night''\<rparr>) \<and>
   detect_anomalies
     (empty_transaction
        \<lparr>amount := Some 600, merchant := Some ''grocery'', time_of_day := Some ''morning''\<rparr>) \<and>
   detect_anomalies
     (empty_transaction \<lparr>amount := Some 900, merchant := Some ''ATM''\<rparr>) \<and>
   \<not> detect_anomalies
     (empty_transaction \<lparr>amount := Some 650.5, merchant := Some ''restaurant''\<rparr>) \<and>
   \<not> detect_anomalies
     (empty_transaction \<lparr>amount := Some 500, merchant := Some ''restaurant''\<rparr>) \<and>
   \<not> detect_anomalies
     (empty_transaction \<lparr>amount := Some 250.5, merchant := Some ''Grocery''\<rparr>) \<and>
   \<not> detect_anomalies empty_transaction"
proof -
  have multiple: "(\<exists>k::int. (600::real) = 100 * of_int k)"
    by (rule exI [of _ 6]) simp
  have "detect_anomalies
     (empty_transaction
        \<lparr>amount := Some 600, merchant := Some ''grocery'', time_of_day := Some ''morning''\<rparr>)"
    using multiple
      detect_anomalies_iff_rules
        [of "empty_transaction
          \<lparr>amount := Some 600, merchant := Some ''grocery'', time_of_day := Some ''morning''\<rparr>"]
    by (simp add: Let_def get_or_def empty_transaction_def)
  then show ?thesis by (simp add: scorer_defs)
qed


section \<open>The counters and the prediction\<close>

lemma predict_step_counters:
  "total_transactions (snd (predict self t)) = total_transactions self + 1 \<and>
   (if calculate_risk_score t > 0.6 \<or> detect_anomalies t
    then fraud_detected (snd (predict self t)) = fraud_detected self + 1 \<and>
         normal_transactions (snd (predict self t)) = normal_transactions self
    else fraud_detected (snd (predict self t)) = fraud_detected self \<and>
         normal_transactions (snd (predict self t)) = normal_transactions self + 1)"
  by (simp add: predict_def Let_def)

lemma predict_calls_counters:
  "total_transactions (predict_calls self ts) = total_transactions self + int (length ts) \<and>
   fraud_detected (predict_calls self ts) + normal_transactions (predict_calls self ts) =
     fraud_detected self + normal_transactions self + int (length ts)"
proof (induction ts arbitrary: self)
  case Nil
  show ?case by simp
next
  case (Cons t ts)
  show ?case
    using Cons.IH [of "snd (predict self t)"] predict_step_counters [of self t]
    by (simp split: if_splits)
qed

lemma scorer_after_counters:
  "total_transactions self \<le> total_transactions (scorer_after self c) \<and>
   fraud_detected self \<le> fraud_detected (scorer_after self c) \<and>
   normal_transactions self \<le> normal_transactions (scorer_after self c)"
proof (cases c)
  case (Predict u)
  then show ?thesis
    using predict_step_counters [of self u] by (simp split: if_splits)
qed simp_all

text \<open>
  C2. After any sequence of N \<^verbatim>\<open>predict\<close> calls on a scorer in its initial state,
  \<^verbatim>\<open>total_transactions\<close> is N and \<^verbatim>\<open>fraud_detected + normal_transactions\<close> is N.
  One call, from any state, adds one to \<^verbatim>\<open>total_transactions\<close> and one to exactly
  one of the other two counters, and no call on the scorer lowers a counter.
\<close>

theorem predict_counters_monotonic:
  "total_transactions (predict_calls init_scorer ts) = int (length ts) \<and>
   fraud_detected (predict_calls init_scorer ts) +
     normal_transactions (predict_calls init_scorer ts) = int (length ts) \<and>
   total_transactions (snd (predict self t)) = total_transactions self + 1 \<and>
   (fraud_detected (snd (predict self t)) = fraud_detected self + 1 \<and>
      normal_transactions (snd (predict self t)) = normal_transactions self \<or>
    fraud_detected (snd (predict self t)) = fraud_detected self \<and>
      normal_transactions (snd (predict self t)) = normal_transactions self + 1) \<and>
   total_transactions self \<le> total_transactions (scorer_after self c) \<and>
   fraud_detected self \<le> fraud_detected (scorer_after self c) \<and>
   normal_transactions self \<le> normal_transactions (scorer_after self c)"
  using predict_calls_counters [of init_scorer ts] predict_step_counters [of self t]
    scorer_after_counters [of self c]
  by (simp add: init_scorer_def split: if_splits)

text \<open>
  Three calls from the initial state, the first and the last on a transaction that is
  flagged and the second on one that is not: the counters are 3, 2 and 1.
\<close>

theorem predict_counters_monotonic_witness:
  "predict_calls init_scorer [high_risk_example, low_risk_example, high_risk_example] =
     \<lparr>total_transactions = 3, fraud_detected = 2, normal_transactions = 1\<rparr> \<and>
   total_transactions
     (predict_calls init_scorer [high_risk_example, low_risk_example, high_risk_example]) =
     int (length [high_risk_example, low_risk_example, high_risk_example])"
  using predict_counters_monotonic
    [of "[high_risk_example, low_risk_example, high_risk_example]" init_scorer
      low_risk_example Get_stats]
  by (simp add: predict_def Let_def init_scorer_def low_risk_example_score
      high_risk_example_score low_risk_example_no_anomaly high_risk_example_anomaly)

text \<open>
  C4. \<^verbatim>\<open>predict\<close> returns prediction 1 exactly when the risk score exceeds 0.6 or an
  anomaly is detected, and 0 otherwise. The confidence it returns is
  \<open>min 0.9 (0.5 + risk_score)\<close> in the first case and \<open>max 0.7 (1.0 - risk_score)\<close>
  in the second, rounded to 3 decimals; the risk score it returns is the risk score
  rounded to 3 decimals.
\<close>

theorem predict_decision_and_confidence:
  "(prediction (fst (predict self t)) = 1 \<longleftrightarrow>
      calculate_risk_score t > 0.6 \<or> detect_anomalies t) \<and>
   (prediction (fst (predict self t)) = 0 \<longleftrightarrow>
      \<not> (calculate_risk_score t > 0.6 \<or> detect_anomalies t)) \<and>
   confidence (fst (predict self t)) =
     py_round (if calculate_risk_score t > 0.6 \<or> detect_anomalies t
               then min 0.9 (0.5 + calculate_risk_score t)
               else max 0.7 (1.0 - calculate_risk_score t)) 3 \<and>
   risk_score (fst (predict self t)) = py_round (calculate_risk_score t) 3"
  by (simp add: predict_def Let_def int_of_bool_def)

text \<open>The records that \<^verbatim>\<open>predict\<close> returns on the specification's two examples.\<close>

theorem predict_decision_and_confidence_witness:
  "fst (predict init_scorer low_risk_example) =
     \<lparr>prediction = 0, is_anomaly = 0, confidence = 0.7, risk_score = 0.45\<rparr> \<and>
   fst (predict init_scorer high_risk_example) =
     \<lparr>prediction = 1, is_anomaly = 1, confidence = 0.9, risk_score = 1\<rparr> \<and>
   prediction (fst (predict init_scorer high_risk_example)) = 1"
  using predict_decision_and_confidence [of init_scorer high_risk_example]
  by (simp add: predict_def Let_def int_of_bool_def py_round_def round_half_even_def
      low_risk_example_score high_risk_example_score low_risk_example_no_anomaly
      high_risk_example_anomaly)

text \<open>
  C10. The confidence that \<^verbatim>\<open>predict\<close> returns is at least 0.7 for every
  transaction, and it is 0.9 whenever the prediction is 1: the risk score is at least
  0.4, so \<open>0.5 + risk_score\<close> is at least 0.9.
\<close>

theorem predict_confidence_at_least_seven_tenths:
  "0.7 \<le> confidence (fst (predict self t)) \<and>
   (prediction (fst (predict self t)) = 1 \<longrightarrow> confidence (fst (predict self t)) = 0.9)"
proof -
  let ?rs = "calculate_risk_score t"
  let ?fraud = "?rs > 0.6 \<or> detect_anomalies t"
  have rs: "0.4 \<le> ?rs" using risk_score_bounds [of t] by simp
  have nine: "py_round 0.9 3 = 0.9" by (simp add: py_round_def round_half_even_def)
  have seven: "0.7 \<le> py_round x 3" if "0.7 \<le> x" for x
    using py_round_ge [of 700 3 x] that by simp
  show ?thesis
  proof (cases ?fraud)
    case True
    have m: "min 0.9 (0.5 + ?rs) = 0.9" using rs by simp
    have "confidence (fst (predict self t)) = py_round (min 0.9 (0.5 + ?rs)) 3"
      using True by (simp add: predict_def Let_def)
    then have "confidence (fst (predict self t)) = 0.9"
      unfolding m nine .
    then show ?thesis by simp
  next
    case False
    have "confidence (fst (predict self t)) = py_round (max 0.7 (1.0 - ?rs)) 3"
      using False by (simp add: predict_def Let_def)
    moreover have "0.7 \<le> py_round (max 0.7 (1.0 - ?rs)) 3" by (rule seven) simp
    moreover have "prediction (fst (predict self t)) = 0"
      using False by (simp add: predict_def Let_def int_of_bool_def)
    ultimately show ?thesis by simp
  qed
qed

text \<open>
  A transaction flagged by an anomaly alone, with the lowest risk score 0.4: a purchase
  of 600 at a grocery in IL, in the morning, by debit card. Its confidence is 0.9.
\<close>

theorem predict_confidence_at_least_seven_tenths_witness:
  "prediction
     (fst (predict init_scorer
        (empty_transaction
           \<lparr>amount := Some 600, merchant := Some ''grocery'', location := Some ''IL'',
            time_of_day := Some ''morning'', card_type := Some ''debit''\<rparr>))) = 1 \<and>
   confidence
     (fst (predict init_scorer
        (empty_transaction
           \<lparr>amount := Some 600, merchant := Some ''grocery'', location := Some ''IL'',
            time_of_day := Some ''morning'', card_type := Some ''debit''\<rparr>))) = 0.9 \<and>
   calculate_risk_score
     (empty_transaction
        \<lparr>amount := Some 600, merchant := Some ''grocery'', location := Some ''IL'',
         time_of_day := Some ''morning'', card_type := Some ''debit''\<rparr>) = 0.4"
proof -
  let ?t = "empty_transaction
     \<lparr>amount := Some 600, merchant := Some ''grocery'', location := Some ''IL'',
      time_of_day := Some ''morning'', card_type := Some ''debit''\<rparr>"
  have p: "prediction (fst (predict init_scorer ?t)) = 1"
    by (simp add: predict_def int_of_bool_def scorer_defs)
  have s: "calculate_risk_score ?t = 0.4"
    by (simp add: scorer_defs)
  from p s predict_confidence_at_least_seven_tenths [of init_scorer ?t]
  show ?thesis by simp
qed


section \<open>Reasoning about computations that draw\<close>

lemma gen_bind_return: "gen_bind (gen_return x) f = f x"
  by (rule ext) (simp add: gen_bind_def gen_return_def)

lemma gen_bind_raise: "gen_bind (gen_raise e) f = gen_raise e"
  by (rule ext) (simp add: gen_bind_def gen_raise_def)

lemma returnsD: "returns m P \<Longrightarrow> \<exists>x w'. m w = Inr (x, w') \<and> P x"
  unfolding returns_def
  by (erule allE [of _ w]) (auto split: sum.splits)

lemma returns_return: "P x \<Longrightarrow> returns (gen_return x) P"
  by (simp add: returns_def gen_return_def)

lemma returns_bind:
  assumes "returns m Q" and "\<And>x. Q x \<Longrightarrow> returns (f x) P"
  shows "returns (gen_bind m f) P"
  unfolding returns_def
proof
  fix w
  from assms(1) obtain x w' where m: "m w = Inr (x, w')" and q: "Q x"
    by (blast dest: returnsD)
  from assms(2) [OF q] obtain y w'' where "f x w' = Inr (y, w'')" and "P y"
    by (blast dest: returnsD)
  with m show "case gen_bind m f w of Inl e \<Rightarrow> False | Inr (x, w') \<Rightarrow> P x"
    by (simp add: gen_bind_def)
qed

lemma returns_weaken: "returns m Q \<Longrightarrow> (\<And>x. Q x \<Longrightarrow> P x) \<Longrightarrow> returns m P"
  unfolding returns_def by (auto split: sum.splits)

lemma Rep_unit_draw_bounds: "0 \<le> Rep_unit_draw u \<and> Rep_unit_draw u < 1"
  using Rep_unit_draw [of u] by simp

lemma returns_random: "returns random_random (\<lambda>u. 0 \<le> u \<and> u < 1)"
  by (simp add: returns_def random_random_def Rep_unit_draw_bounds)

lemma returns_uniform: "a \<le> b \<Longrightarrow> returns (uniform a b) (\<lambda>x. a \<le> x \<and> x \<le> b)"
  unfolding uniform_def
proof (rule returns_bind [OF returns_random], rule returns_return)
  fix u :: real
  assume ab: "a \<le> b" and u: "0 \<le> u \<and> u < 1"
  then have "0 \<le> (b - a) * u" by simp
  moreover from ab u have "(b - a) * u \<le> (b - a) * 1"
    by (intro mult_left_mono) simp_all
  ultimately show "a \<le> a + (b - a) * u \<and> a + (b - a) * u \<le> b" by simp
qed

lemma returns_uniform_any: "returns (uniform a b) (\<lambda>x. True)"
  by (simp add: returns_def uniform_def gen_bind_def gen_return_def random_random_def)

lemma returns_randbelow: "0 < n \<Longrightarrow> returns (randbelow n) (\<lambda>i. i < n)"
  unfolding randbelow_def
proof (rule returns_bind [OF returns_random], rule returns_return)
  fix u :: real
  assume n: "0 < n" and u: "0 \<le> u \<and> u < 1"
  then have "u * of_nat n < of_nat n" by simp
  then have "\<lfloor>u * of_nat n\<rfloor> < int n" by (simp add: floor_less_iff)
  moreover from u have "0 \<le> \<lfloor>u * of_nat n\<rfloor>" by simp
  ultimately show "nat \<lfloor>u * of_nat n\<rfloor> < n" by linarith
qed

lemma returns_choice: "seq \<noteq> [] \<Longrightarrow> returns (choice seq) (\<lambda>x. x \<in> set seq)"
  unfolding choice_def
  by (simp, rule returns_bind [OF returns_randbelow]) (simp_all add: returns_return)

lemma returns_randint: "a \<le> b \<Longrightarrow> returns (randint a b) (\<lambda>i. a \<le> i \<and> i \<le> b)"
  unfolding randint_def
  by (simp, rule returns_bind [OF returns_randbelow]) (auto intro!: returns_return)

lemma bisect_le: "bisect a x hi \<le> hi"
  unfolding bisect_def
  by (rule order_trans [OF length_takeWhile_le]) simp

lemma length_accumulate: "length (accumulate acc xs) = length xs"
  by (induction xs arbitrary: acc) simp_all

lemma returns_choices:
  assumes "length weights = length population" and "population \<noteq> []"
    and "0 < last (accumulate 0 weights)"
  shows "returns (choices population weights) (\<lambda>xs. \<exists>x \<in> set population. xs = [x])"
proof -
  from assms(1,2) have ne: "accumulate 0 weights \<noteq> []"
    by (metis length_accumulate length_0_conv)
  have idx: "bisect c x (length population - 1) < length population" for c x
    using bisect_le [of c x "length population - 1"] assms(2)
    by (cases population) simp_all
  show ?thesis
    unfolding choices_def Let_def
    using assms ne
    by (simp add: length_accumulate, intro returns_bind [OF returns_random] returns_return)
       (use idx in auto)
qed

lemma returns_choices_index0:
  assumes "length weights = length population" and "population \<noteq> []"
    and "0 < last (accumulate 0 weights)"
  shows "returns (gen_bind (choices population weights) index0) (\<lambda>x. x \<in> set population)"
  by (rule returns_bind [OF returns_choices [OF assms]])
     (auto simp: index0_def intro: returns_return)

lemma returns_bind_dict_index:
  "map_of d k = Some v \<Longrightarrow> returns (f v) P \<Longrightarrow> returns (gen_bind (dict_index d k) f) P"
  by (simp add: dict_index_def gen_bind_return)

lemma returns_uuid4_str: "returns uuid4_str (\<lambda>u. True)"
  by (simp add: returns_def uuid4_str_def)

lemma returns_poisson: "returns (poisson lam) (\<lambda>k. True)"
  by (simp add: returns_def poisson_def)

lemma returns_datetime_now: "returns datetime_now (\<lambda>k. True)"
  by (simp add: returns_def datetime_now_def)


section \<open>The fraud archetypes\<close>

lemma generated_fraud:
  assumes "lo \<le> a \<and> a \<le> hi" and "lo * 10 ^ 2 \<in> \<int>" and "hi * 10 ^ 2 \<in> \<int>"
  shows "fraud_within lo hi (generated (py_round a 2) m l t c ''fraudulent'')"
  using assms py_round_2_cents [of a]
  by (simp add: fraud_within_def amount_within_def generated_def empty_transaction_def
      py_round_lower py_round_upper)

lemmas returns_fraud_intros =
  returns_bind [OF returns_uniform] returns_bind [OF returns_choice] returns_return
  generated_fraud

lemma returns_fraud_high:
  "returns (fraud_transaction_of ''high_amount_unknown_merchant'') (fraud_within 1000 15000)"
  unfolding fraud_transaction_of_def
  by (simp, intro returns_fraud_intros) simp_all

lemma returns_fraud_small:
  "returns (fraud_transaction_of ''multiple_small_amounts'') (fraud_within 0.01 50)"
  unfolding fraud_transaction_of_def
  by (simp, intro returns_fraud_intros) (simp_all add: locations_def)

lemma returns_fraud_foreign:
  "returns (fraud_transaction_of ''foreign_location'') (fraud_within 100 3000)"
  unfolding fraud_transaction_of_def
  by (simp, intro returns_fraud_intros) simp_all

lemma returns_fraud_unusual:
  "returns (fraud_transaction_of ''unusual_time'') (fraud_within 200 5000)"
  unfolding fraud_transaction_of_def
  by (simp, intro returns_fraud_intros) (simp_all add: card_types_def)

lemma returns_fraud_prepaid:
  "returns (fraud_transaction_of ''prepaid_card_pattern'') (fraud_within 50 1000)"
  unfolding fraud_transaction_of_def
  by (simp, intro returns_fraud_intros) (simp_all add: locations_def time_periods_def)

lemma returns_fraud_default:
  "pattern \<notin> set fraud_patterns \<Longrightarrow>
   returns (fraud_transaction_of pattern) (fraud_within 500 10000)"
  unfolding fraud_transaction_of_def
  by (simp add: fraud_patterns_def, intro returns_fraud_intros) simp_all

lemma fraud_within_mono:
  "fraud_within lo hi t \<Longrightarrow> lo' \<le> lo \<Longrightarrow> hi \<le> hi' \<Longrightarrow> fraud_within lo' hi' t"
  by (auto simp: fraud_within_def amount_within_def)

lemma returns_fraud_any: "returns (fraud_transaction_of pattern) (fraud_within 0.01 15000)"
proof -
  consider "pattern = ''high_amount_unknown_merchant''" | "pattern = ''multiple_small_amounts''"
    | "pattern = ''foreign_location''" | "pattern = ''unusual_time''"
    | "pattern = ''prepaid_card_pattern''" | "pattern \<notin> set fraud_patterns"
    by (auto simp: fraud_patterns_def)
  then show ?thesis
  proof cases
    case 1
    show ?thesis unfolding 1
      by (rule returns_weaken [OF returns_fraud_high]) (erule fraud_within_mono, simp_all)
  next
    case 2
    show ?thesis unfolding 2
      by (rule returns_weaken [OF returns_fraud_small]) (erule fraud_within_mono, simp_all)
  next
    case 3
    show ?thesis unfolding 3
      by (rule returns_weaken [OF returns_fraud_foreign]) (erule fraud_within_mono, simp_all)
  next
    case 4
    show ?thesis unfolding 4
      by (rule returns_weaken [OF returns_fraud_unusual]) (erule fraud_within_mono, simp_all)
  next
    case 5
    show ?thesis unfolding 5
      by (rule returns_weaken [OF returns_fraud_prepaid]) (erule fraud_within_mono, simp_all)
  next
    case 6
    then show ?thesis
      by (intro returns_weaken [OF returns_fraud_default])
         (assumption, erule fraud_within_mono, simp_all)
  qed
qed

lemma returns_generate_fraud_transaction:
  "returns generate_fraud_transaction (fraud_within 0.01 15000)"
  unfolding generate_fraud_transaction_def
  by (rule returns_bind [OF returns_choice])
     (simp add: fraud_patterns_def, rule returns_fraud_any)

lemma fraud_within_in_cents: "fraud_within lo hi t \<Longrightarrow> 0.01 \<le> lo \<Longrightarrow> amount_in_cents t"
  by (auto simp: fraud_within_def amount_within_def amount_in_cents_def)


text \<open>
  C8. Every transaction of the fraud-pattern generator carries the profile tag
  "fraudulent" and an amount in the range of its archetype: 1000 to 15000 for
  high_amount_unknown_merchant, 0.01 to 50 for multiple_small_amounts, 100 to 3000 for
  foreign_location, 200 to 5000 for unusual_time and 50 to 1000 for
  prepaid_card_pattern. No archetype raises, and every run of the fraud generator draws
  one of the five archetypes and returns that archetype's transaction, inside that
  archetype's range.
\<close>

theorem fraud_archetype_ranges:
  "returns (fraud_transaction_of ''high_amount_unknown_merchant'') (fraud_within 1000 15000) \<and>
   returns (fraud_transaction_of ''multiple_small_amounts'') (fraud_within 0.01 50) \<and>
   returns (fraud_transaction_of ''foreign_location'') (fraud_within 100 3000) \<and>
   returns (fraud_transaction_of ''unusual_time'') (fraud_within 200 5000) \<and>
   returns (fraud_transaction_of ''prepaid_card_pattern'') (fraud_within 50 1000) \<and>
   (\<exists>pattern lo hi w' t w''.
      (pattern, lo, hi) \<in>
        {(''high_amount_unknown_merchant'', 1000, 15000),
         (''multiple_small_amounts'', 0.01, 50),
         (''foreign_location'', 100, 3000),
         (''unusual_time'', 200, 5000),
         (''prepaid_card_pattern'', 50, 1000)} \<and>
      choice fraud_patterns w = Inr (pattern, w') \<and>
      fraud_transaction_of pattern w' = Inr (t, w'') \<and>
      generate_fraud_transaction w = Inr (t, w'') \<and>
      fraud_within lo hi t)"
proof -
  have "fraud_patterns \<noteq> []" by (simp add: fraud_patterns_def)
  from returnsD [OF returns_choice [OF this], of w]
  obtain pattern w' where c: "choice fraud_patterns w = Inr (pattern, w')"
    and mem: "pattern \<in> set fraud_patterns"
    by blast
  from mem have alt:
    "pattern = ''high_amount_unknown_merchant'' \<or> pattern = ''multiple_small_amounts'' \<or>
     pattern = ''foreign_location'' \<or> pattern = ''unusual_time'' \<or>
     pattern = ''prepaid_card_pattern''"
    by (simp add: fraud_patterns_def)
  have "\<exists>lo hi.
      (pattern, lo, hi) \<in>
        {(''high_amount_unknown_merchant'', 1000, 15000),
         (''multiple_small_amounts'', 0.01, 50),
         (''foreign_location'', 100, 3000),
         (''unusual_time'', 200, 5000),
         (''prepaid_card_pattern'', 50, 1000)} \<and>
      returns (fraud_transaction_of pattern) (fraud_within lo hi)"
    using alt
  proof (elim disjE)
    assume p: "pattern = ''high_amount_unknown_merchant''"
    show ?thesis unfolding p
      by (rule exI [of _ 1000], rule exI [of _ 15000], rule conjI, simp, rule returns_fraud_high)
  next
    assume p: "pattern = ''multiple_small_amounts''"
    show ?thesis unfolding p
      by (rule exI [of _ "0.01"], rule exI [of _ 50], rule conjI, simp, rule returns_fraud_small)
  next
    assume p: "pattern = ''foreign_location''"
    show ?thesis unfolding p
      by (rule exI [of _ 100], rule exI [of _ 3000], rule conjI, simp, rule returns_fraud_foreign)
  next
    assume p: "pattern = ''unusual_time''"
    show ?thesis unfolding p
      by (rule exI [of _ 200], rule exI [of _ 5000], rule conjI, simp, rule returns_fraud_unusual)
  next
    assume p: "pattern = ''prepaid_card_pattern''"
    show ?thesis unfolding p
      by (rule exI [of _ 50], rule exI [of _ 1000], rule conjI, simp, rule returns_fraud_prepaid)
  qed
  then obtain lo hi where
    range: "(pattern, lo, hi) \<in>
        {(''high_amount_unknown_merchant'', 1000, 15000),
         (''multiple_small_amounts'', 0.01, 50),
         (''foreign_location'', 100, 3000),
         (''unusual_time'', 200, 5000),
         (''prepaid_card_pattern'', 50, 1000)}"
    and r: "returns (fraud_transaction_of pattern) (fraud_within lo hi)"
    by (elim exE conjE)
  from returnsD [OF r, of w']
  obtain t w'' where f: "fraud_transaction_of pattern w' = Inr (t, w'')"
    and within: "fraud_within lo hi t"
    by blast
  from c f have g: "generate_fraud_transaction w = Inr (t, w'')"
    by (simp add: generate_fraud_transaction_def gen_bind_def)
  from range c f g within have run: "\<exists>pattern lo hi w' t w''.
      (pattern, lo, hi) \<in>
        {(''high_amount_unknown_merchant'', 1000, 15000),
         (''multiple_small_amounts'', 0.01, 50),
         (''foreign_location'', 100, 3000),
         (''unusual_time'', 200, 5000),
         (''prepaid_card_pattern'', 50, 1000)} \<and>
      choice fraud_patterns w = Inr (pattern, w') \<and>
      fraud_transaction_of pattern w' = Inr (t, w'') \<and>
      generate_fraud_transaction w = Inr (t, w'') \<and>
      fraud_within lo hi t"
    by iprover
  from run returns_fraud_high returns_fraud_small returns_fraud_foreign
    returns_fraud_unusual returns_fraud_prepaid
  show ?thesis by (intro conjI)
qed


section \<open>A run in which every draw is one half\<close>

lemma Rep_half: "Rep_unit_draw (Abs_unit_draw (1 / 2)) = 1 / 2"
  by (simp add: Abs_unit_draw_inverse)

lemma random_random_half: "random_random (half_world us) = Inr (1 / 2, half_world us)"
  by (simp add: random_random_def half_world_def Rep_half)

lemma uniform_half:
  "uniform a b (half_world us) = Inr (a + (b - a) * (1 / 2), half_world us)"
  by (simp add: uniform_def gen_bind_def gen_return_def random_random_half)

lemma randbelow_half:
  "randbelow n (half_world us) = Inr (nat \<lfloor>(1 / 2) * real n\<rfloor>, half_world us)"
  by (simp add: randbelow_def gen_bind_def gen_return_def random_random_half)

lemma choice_half:
  "seq \<noteq> [] \<Longrightarrow>
   choice seq (half_world us) =
     Inr (seq ! nat \<lfloor>(1 / 2) * real (length seq)\<rfloor>, half_world us)"
  by (simp add: choice_def gen_bind_def gen_return_def randbelow_half)

lemma choices_half:
  assumes "length ws = length pop" and "accumulate 0 ws \<noteq> []"
    and "0 < last (accumulate 0 ws)"
  shows "choices pop ws (half_world us) =
    Inr ([pop ! bisect (accumulate 0 ws) (1 / 2 * last (accumulate 0 ws)) (length pop - 1)],
         half_world us)"
  using assms
  by (simp add: choices_def Let_def length_accumulate gen_bind_def gen_return_def
      gen_raise_def random_random_half)

lemma fraud_foreign_half:
  "fraud_transaction_of ''foreign_location'' (half_world us) =
     Inr (generated 1550 ''travel'' ''Foreign Country'' ''morning'' ''prepaid'' ''fraudulent'',
          half_world us)"
  unfolding fraud_transaction_of_def
  by (simp add: gen_bind_def gen_return_def uniform_half choice_half py_round_def
      round_half_even_def)

lemma generate_fraud_half:
  "generate_fraud_transaction (half_world us) =
     Inr (generated 1550 ''travel'' ''Foreign Country'' ''morning'' ''prepaid'' ''fraudulent'',
          half_world us)"
  unfolding generate_fraud_transaction_def
  by (simp add: gen_bind_def choice_half fraud_patterns_def fraud_foreign_half)

text \<open>
  In the run of halves the generator draws the third archetype, foreign_location, and
  the amount in the middle of its range.
\<close>

theorem fraud_archetype_ranges_witness:
  "generate_fraud_transaction (half_world (sconst [])) =
     Inr (generated 1550 ''travel'' ''Foreign Country'' ''morning'' ''prepaid'' ''fraudulent'',
          half_world (sconst [])) \<and>
   fraud_within 100 3000
     (generated 1550 ''travel'' ''Foreign Country'' ''morning'' ''prepaid'' ''fraudulent'') \<and>
   user_profile
     (generated 1550 ''travel'' ''Foreign Country'' ''morning'' ''prepaid'' ''fraudulent'') =
     Some ''fraudulent'' \<and>
   amount
     (generated 1550 ''travel'' ''Foreign Country'' ''morning'' ''prepaid'' ''fraudulent'') =
     Some 1550"
proof -
  from fraud_archetype_ranges [of "half_world (sconst [])"]
  have "returns (fraud_transaction_of ''foreign_location'') (fraud_within 100 3000)"
    by (elim conjE)
  from returnsD [OF this, of "half_world (sconst [])"]
  have "fraud_within 100 3000
     (generated 1550 ''travel'' ''Foreign Country'' ''morning'' ''prepaid'' ''fraudulent'')"
    by (simp add: fraud_foreign_half)
  then show ?thesis
    by (simp add: generate_fraud_half generated_def empty_transaction_def)
qed


section \<open>Normal transactions, batches and sessions\<close>

lemma hours_upto:
  "[0..23::int] =
     [0, 1, 2, 3, 4, 5, 6, 7, 8, 9, 10, 11, 12, 13, 14, 15, 16, 17, 18, 19, 20, 21, 22, 23]"
  by (simp add: upto_rec1)

lemma index_all_hourly_weights:
  "index_all hourly_weights [0..23] = gen_return (map snd hourly_weights)"
  by (simp add: hours_upto hourly_weights_def dict_index_def gen_bind_return)

lemma total_hourly_weights: "last (accumulate 0 (map snd hourly_weights)) = 31.8"
  by (simp add: hourly_weights_def)

lemma location_weights:
  "replicate 20 (5::real) @ [1, 0.1] =
     [5, 5, 5, 5, 5, 5, 5, 5, 5, 5, 5, 5, 5, 5, 5, 5, 5, 5, 5, 5, 1, 0.1]"
  by (simp add: numeral_eq_Suc)

lemma location_weights_total: "last (accumulate 0 (replicate 20 5 @ [1, 0.1])) = 101.1"
  unfolding location_weights by simp

lemma returns_generate_realistic_hour:
  "returns generate_realistic_hour (\<lambda>h. 0 \<le> h \<and> h \<le> 23)"
  unfolding generate_realistic_hour_def Let_def index_all_hourly_weights gen_bind_return
proof (rule returns_bind [OF returns_choices])
  show "length (map snd hourly_weights) = length [0..23::int]"
    by (simp add: hourly_weights_def)
  show "[0..23::int] \<noteq> []" by simp
  show "0 < last (accumulate 0 (map snd hourly_weights))"
    by (simp add: total_hourly_weights)
  fix xs :: "int list"
  assume "\<exists>x \<in> set [0..23]. xs = [x]"
  then show "returns (index0 xs) (\<lambda>h. 0 \<le> h \<and> h \<le> 23)"
    by (auto simp: index0_def intro: returns_return)
qed

lemma generated_normal:
  "amount_in_cents (generated (py_round (max x 0.01) 2) m l t c u)"
  using py_round_2_cents [of "max x 0.01"] py_round_lower [of "0.01" "max x 0.01" 2]
  by (simp add: amount_in_cents_def generated_def empty_transaction_def)

lemma returns_generate_normal_transaction:
  assumes "preferred_merchants profile \<noteq> []"
    and "set (preferred_merchants profile) \<subseteq> fst ` set merchant_amount_ranges"
  shows "returns (generate_normal_transaction profile)
           (\<lambda>t. user_profile t = Some ''normal'' \<and> amount_in_cents t)"
  unfolding generate_normal_transaction_def
proof (rule returns_bind [OF returns_choice [OF assms(1)]])
  fix m
  assume "m \<in> set (preferred_merchants profile)"
  with assms(2) obtain r where r: "map_of merchant_amount_ranges m = Some r"
    by (metis domD dom_map_of_conv_image_fst subsetD)
  show "returns
          (gen_bind (dict_index merchant_amount_ranges m)
            (\<lambda>(min_amount, max_amount).
               gen_bind (uniform min_amount max_amount) (\<lambda>base_amount.
               gen_bind (uniform 0.5 1.5) (\<lambda>factor.
                 let amount = base_amount * factor * (avg_amount profile / 75);
                     amount = py_round (max amount 0.01) 2
                 in gen_bind generate_realistic_hour (\<lambda>hour.
                    let time_of_day = hour_to_period hour
                    in gen_bind
                         (gen_bind (choices locations (replicate 20 5 @ [1, 0.1])) index0)
                         (\<lambda>location.
                       gen_bind (gen_bind (choices card_types [50, 45, 5]) index0)
                         (\<lambda>card_type.
                       gen_return
                         (generated amount m location time_of_day card_type
                            ''normal''))))))))
          (\<lambda>t. user_profile t = Some ''normal'' \<and> amount_in_cents t)"
    unfolding Let_def
    apply (rule returns_bind_dict_index [OF r])
    apply (cases r; simp only: prod.case)
    apply (intro returns_bind [OF returns_uniform_any]
        returns_bind [OF returns_generate_realistic_hour]
        returns_bind [OF returns_choices_index0] returns_return conjI generated_normal)
          apply (simp_all add: locations_def card_types_def generated_def
            empty_transaction_def location_weights_total)
    done
qed

lemma table_profile_ok:
  assumes "map_of user_profiles name = Some profile"
  shows "preferred_merchants profile \<noteq> [] \<and>
         set (preferred_merchants profile) \<subseteq> fst ` set merchant_amount_ranges"
  using assms
  by (auto simp: user_profiles_def merchant_amount_ranges_def split: if_splits)

lemma returns_generate_transaction_Some:
  assumes "map_of user_profiles name = Some profile"
  shows "returns (generate_transaction (Some name)) amount_in_cents"
  unfolding generate_transaction_def
  apply (simp add: gen_bind_return)
  apply (rule returns_bind_dict_index [OF assms])
  apply (rule returns_bind [OF returns_random])
  apply (simp add: Let_def)
  apply (intro conjI impI)
   apply (rule returns_weaken [OF returns_generate_fraud_transaction])
   apply (erule fraud_within_in_cents, simp)
  apply (rule returns_weaken [OF returns_generate_normal_transaction])
  using table_profile_ok [OF assms] apply simp_all
  done

lemma returns_generate_transaction_None:
  "returns (generate_transaction None) amount_in_cents"
  unfolding generate_transaction_def
  apply simp
  apply (rule returns_bind [OF returns_choices_index0])
     apply (simp_all add: user_profiles_def)[3]
  subgoal for name
  proof -
    assume "name \<in> set (map fst user_profiles)"
    then obtain profile where p: "map_of user_profiles name = Some profile"
      by (auto simp: user_profiles_def)
    have "returns (generate_transaction (Some name)) amount_in_cents"
      by (rule returns_generate_transaction_Some [OF p])
    then show ?thesis
      by (simp add: generate_transaction_def gen_bind_return)
  qed
  done

lemma returns_batch_loop:
  "\<forall>t \<in> set acc. amount_in_cents t \<Longrightarrow>
   returns (batch_loop n acc)
     (\<lambda>ts. length ts = length acc + n \<and> (\<forall>t \<in> set ts. amount_in_cents t))"
proof (induction n arbitrary: acc)
  case 0
  then show ?case by (simp add: returns_return)
next
  case (Suc n)
  show ?case
    unfolding batch_loop.simps
  proof (rule returns_bind [OF returns_generate_transaction_None])
    fix t
    assume "amount_in_cents t"
    with Suc.prems have "\<forall>x \<in> set (acc @ [t]). amount_in_cents x" by simp
    from Suc.IH [OF this]
    show "returns (batch_loop n (acc @ [t]))
            (\<lambda>ts. length ts = length acc + Suc n \<and> (\<forall>t \<in> set ts. amount_in_cents t))"
      by (rule returns_weaken) simp
  qed
qed

lemma returns_session_loop:
  assumes p: "map_of user_profiles name = Some profile"
  shows "\<forall>t \<in> set acc. amount_in_cents t \<Longrightarrow>
   returns (session_loop n name base_time acc)
     (\<lambda>ts. length ts = length acc + n \<and> (\<forall>t \<in> set ts. amount_in_cents t))"
proof (induction n arbitrary: acc base_time)
  case 0
  then show ?case by (simp add: returns_return)
next
  case (Suc n)
  show ?case
    unfolding session_loop.simps Let_def
  proof (intro returns_bind [OF returns_randint]
      returns_bind [OF returns_generate_transaction_Some [OF p]]
      returns_bind [OF returns_uuid4_str])
    show "(5::int) \<le> 120" by simp
    fix minutes t u
    assume "amount_in_cents t"
    with Suc.prems
    have "\<forall>x \<in> set (acc @ [t\<lparr>timestamp := Some (base_time + timedelta_minutes minutes),
                                session_id := Some (take 8 u)\<rparr>]). amount_in_cents x"
      by (simp add: amount_in_cents_def)
    from Suc.IH [OF this]
    show "returns
            (session_loop n name (base_time + timedelta_minutes minutes)
               (acc @ [t\<lparr>timestamp := Some (base_time + timedelta_minutes minutes),
                         session_id := Some (take 8 u)\<rparr>]))
            (\<lambda>ts. length ts = length acc + Suc n \<and> (\<forall>t \<in> set ts. amount_in_cents t))"
      by (rule returns_weaken) simp
  qed
qed

lemma returns_generate_user_session_Some:
  assumes p: "map_of user_profiles name = Some profile"
  shows "returns (generate_user_session name (Some n))
     (\<lambda>ts. length ts = nat n \<and> (\<forall>t \<in> set ts. amount_in_cents t))"
  unfolding generate_user_session_def
proof (rule returns_bind_dict_index [OF p], simp add: gen_bind_return,
    rule returns_bind [OF returns_datetime_now])
  fix base_time :: int
  show "returns (session_loop (nat n) name base_time [])
          (\<lambda>ts. length ts = nat n \<and> (\<forall>t \<in> set ts. amount_in_cents t))"
    by (rule returns_weaken [OF returns_session_loop [OF p]]) simp_all
qed

lemma returns_generate_user_session_None:
  assumes p: "map_of user_profiles name = Some profile"
  shows "returns (generate_user_session name None)
     (\<lambda>ts. 1 \<le> length ts \<and> (\<forall>t \<in> set ts. amount_in_cents t))"
  unfolding generate_user_session_def
proof (rule returns_bind_dict_index [OF p], simp,
    rule returns_bind [where Q = "\<lambda>n. (1::int) \<le> n"])
  show "returns
          (gen_bind (poisson (real_of_int (avg_daily_transactions profile)))
             (\<lambda>k. gen_return (max 1 (int k))))
          (\<lambda>n. 1 \<le> n)"
    by (intro returns_bind [OF returns_poisson] returns_return) simp
next
  fix n :: int
  assume n: "1 \<le> n"
  show "returns (gen_bind datetime_now (\<lambda>base_time. session_loop (nat n) name base_time []))
          (\<lambda>ts. Suc 0 \<le> length ts \<and> (\<forall>t \<in> set ts. amount_in_cents t))"
  proof (rule returns_bind [OF returns_datetime_now])
    fix base_time :: int
    show "returns (session_loop (nat n) name base_time [])
            (\<lambda>ts. Suc 0 \<le> length ts \<and> (\<forall>t \<in> set ts. amount_in_cents t))"
      using n by (intro returns_weaken [OF returns_session_loop [OF p]]) auto
  qed
qed


section \<open>Amounts, unknown profiles and session identifiers\<close>

lemma hour_half: "generate_realistic_hour (half_world us) = Inr (14, half_world us)"
  unfolding generate_realistic_hour_def Let_def index_all_hourly_weights gen_bind_return
  by (simp add: gen_bind_def choices_half hourly_weights_def hours_upto bisect_def
      index0_def gen_return_def)

lemma location_half:
  "gen_bind (choices locations (replicate 20 5 @ [1, 0.1])) index0 (half_world us) =
     Inr (''Austin, TX'', half_world us)"
  unfolding location_weights
  by (simp add: gen_bind_def choices_half locations_def bisect_def index0_def gen_return_def)

lemma card_half:
  "gen_bind (choices card_types [50, 45, 5]) index0 (half_world us) =
     Inr (''credit'', half_world us)"
  by (simp add: gen_bind_def choices_half card_types_def bisect_def index0_def gen_return_def)

lemma normal_half:
  "preferred_merchants p = [''grocery'', ''gas'', ''restaurant''] \<Longrightarrow> avg_amount p = 75 \<Longrightarrow>
   generate_normal_transaction p (half_world us) =
     Inr (generated 70 ''gas'' ''Austin, TX'' ''afternoon'' ''credit'' ''normal'',
          half_world us)"
  unfolding generate_normal_transaction_def
  by (simp add: gen_bind_def choice_half dict_index_def merchant_amount_ranges_def
      gen_return_def uniform_half hour_half location_half [unfolded gen_bind_def]
      card_half [unfolded gen_bind_def] Let_def hour_to_period_def py_round_def
      round_half_even_def)

lemma transaction_half:
  "generate_transaction (Some ''normal_user'') (half_world us) =
     Inr (generated 70 ''gas'' ''Austin, TX'' ''afternoon'' ''credit'' ''normal'',
          half_world us)"
  unfolding generate_transaction_def
  by (simp add: gen_bind_def dict_index_def user_profiles_def gen_return_def
      random_random_half normal_half)

lemma uuid4_str_half: "uuid4_str (half_world (u ## us)) = Inr (u, half_world us)"
  by (simp add: uuid4_str_def half_world_def)

lemma randint_half: "randint 5 120 (half_world us) = Inr (63, half_world us)"
  by (simp add: randint_def gen_bind_def gen_return_def randbelow_half)

lemma datetime_now_half: "datetime_now (half_world us) = Inr (0, half_world us)"
  by (simp add: datetime_now_def half_world_def)

lemma session_half:
  "generate_user_session ''normal_user'' (Some 2) (half_world (u1 ## u2 ## us)) =
   Inr ([generated 70 ''gas'' ''Austin, TX'' ''afternoon'' ''credit'' ''normal''
          \<lparr>timestamp := Some 3780000000, session_id := Some (take 8 u1)\<rparr>,
         generated 70 ''gas'' ''Austin, TX'' ''afternoon'' ''credit'' ''normal''
          \<lparr>timestamp := Some 7560000000, session_id := Some (take 8 u2)\<rparr>],
        half_world us)"
  unfolding generate_user_session_def
  by (simp add: gen_bind_def dict_index_def user_profiles_def gen_return_def
      datetime_now_half numeral_2_eq_2 randint_half transaction_half uuid4_str_half
      timedelta_minutes_def)

text \<open>
  C7. Every transaction that the generator produces, by the normal path or by any fraud
  archetype, has an amount of at least 0.01 that is a whole number of cents. This holds
  for each fraud archetype and the default pattern, for the fraud generator, for
  \<^verbatim>\<open>generate_transaction\<close> without a profile name and for every transaction of a
  batch; and, for each name of the profile table, for the normal path on its profile,
  for \<^verbatim>\<open>generate_transaction\<close> and for every transaction of a session. None of
  these calls raises.
\<close>

theorem generated_amount_in_cents:
  "returns (fraud_transaction_of pattern) amount_in_cents \<and>
   returns generate_fraud_transaction amount_in_cents \<and>
   returns (generate_transaction None) amount_in_cents \<and>
   returns (generate_batch_transactions count) (list_all amount_in_cents) \<and>
   (map_of user_profiles name = Some profile \<longrightarrow>
      returns (generate_normal_transaction profile) amount_in_cents \<and>
      returns (generate_transaction (Some name)) amount_in_cents \<and>
      returns (generate_user_session name session_length) (list_all amount_in_cents))"
proof -
  have fraud: "returns (fraud_transaction_of pattern) amount_in_cents"
    by (rule returns_weaken [OF returns_fraud_any]) (erule fraud_within_in_cents, simp)
  have gen_fraud: "returns generate_fraud_transaction amount_in_cents"
    by (rule returns_weaken [OF returns_generate_fraud_transaction])
       (erule fraud_within_in_cents, simp)
  have batch: "returns (generate_batch_transactions count) (list_all amount_in_cents)"
    unfolding generate_batch_transactions_def
    by (rule returns_weaken [OF returns_batch_loop]) (simp_all add: list_all_iff)
  have profile: "returns (generate_normal_transaction profile) amount_in_cents \<and>
      returns (generate_transaction (Some name)) amount_in_cents \<and>
      returns (generate_user_session name session_length) (list_all amount_in_cents)"
    if p: "map_of user_profiles name = Some profile"
  proof (intro conjI)
    from table_profile_ok [OF p]
    show "returns (generate_normal_transaction profile) amount_in_cents"
      by (intro returns_weaken [OF returns_generate_normal_transaction]) simp_all
    show "returns (generate_transaction (Some name)) amount_in_cents"
      by (rule returns_generate_transaction_Some [OF p])
    show "returns (generate_user_session name session_length) (list_all amount_in_cents)"
    proof (cases session_length)
      case None
      show ?thesis unfolding None
        by (rule returns_weaken [OF returns_generate_user_session_None [OF p]])
           (simp add: list_all_iff)
    next
      case (Some n)
      show ?thesis unfolding Some
        by (rule returns_weaken [OF returns_generate_user_session_Some [OF p]])
           (simp add: list_all_iff)
    qed
  qed
  from fraud gen_fraud returns_generate_transaction_None batch profile
  show ?thesis by blast
qed

text \<open>
  In the run of halves a normal user buys gas for 70.00, and a session of two such
  transactions is returned; each amount is 7000 cents.
\<close>

theorem generated_amount_in_cents_witness:
  "map_of user_profiles ''normal_user'' =
     Some \<lparr>avg_daily_transactions = 3,
           preferred_merchants = [''grocery'', ''gas'', ''restaurant''],
           avg_amount = 75, fraud_probability = 0.001\<rparr> \<and>
   generate_transaction (Some ''normal_user'') (half_world (sconst [])) =
     Inr (generated 70 ''gas'' ''Austin, TX'' ''afternoon'' ''credit'' ''normal'',
          half_world (sconst [])) \<and>
   amount_in_cents (generated 70 ''gas'' ''Austin, TX'' ''afternoon'' ''credit'' ''normal'') \<and>
   amount (generated 70 ''gas'' ''Austin, TX'' ''afternoon'' ''credit'' ''normal'') = Some 70 \<and>
   returns (generate_user_session ''normal_user'' (Some 2)) (list_all amount_in_cents)"
proof -
  let ?p = "\<lparr>avg_daily_transactions = 3,
           preferred_merchants = [''grocery'', ''gas'', ''restaurant''],
           avg_amount = 75, fraud_probability = 0.001\<rparr>"
  have p: "map_of user_profiles ''normal_user'' = Some ?p"
    by (simp add: user_profiles_def)
  note all = generated_amount_in_cents [of "[]" 0 "''normal_user''" ?p "Some 2"]
  note for_profile =
    all [THEN conjunct2, THEN conjunct2, THEN conjunct2, THEN conjunct2, THEN mp, OF p]
  have r: "returns (generate_transaction (Some ''normal_user'')) amount_in_cents"
    by (rule for_profile [THEN conjunct2, THEN conjunct1])
  have s: "returns (generate_user_session ''normal_user'' (Some 2)) (list_all amount_in_cents)"
    by (rule for_profile [THEN conjunct2, THEN conjunct2])
  from returnsD [OF r, of "half_world (sconst [])"]
  have "amount_in_cents (generated 70 ''gas'' ''Austin, TX'' ''afternoon'' ''credit'' ''normal'')"
    by (simp add: transaction_half)
  with p s show ?thesis
    by (simp add: transaction_half generated_def empty_transaction_def)
qed

text \<open>
  C6. For a profile name that is none of normal_user, heavy_user, business_user and
  suspicious_user, \<^verbatim>\<open>generate_transaction\<close> and \<^verbatim>\<open>generate_user_session\<close> raise
  KeyError, the error of the lookup in the profile table, whatever the session length
  and the state of the random sources; no default profile is used.
\<close>

theorem unknown_profile_raises_KeyError:
  assumes "name \<notin> {''normal_user'', ''heavy_user'', ''business_user'', ''suspicious_user''}"
  shows "generate_transaction (Some name) w = Inl KeyError \<and>
         generate_user_session name session_length w = Inl KeyError"
proof -
  from assms have "map_of user_profiles name = None"
    by (simp add: user_profiles_def)
  then show ?thesis
    by (simp add: generate_transaction_def generate_user_session_def dict_index_def
        gen_bind_return gen_bind_raise gen_raise_def)
qed

text \<open>The lookup is exact: a name that differs from a key only in case is unknown.\<close>

theorem unknown_profile_raises_KeyError_witness:
  "''Normal_User'' \<notin> {''normal_user'', ''heavy_user'', ''business_user'', ''suspicious_user''} \<and>
   generate_transaction (Some ''Normal_User'') (half_world (sconst [])) = Inl KeyError \<and>
   generate_user_session ''Normal_User'' (Some 2) (half_world (sconst [])) = Inl KeyError \<and>
   generate_user_session ''Normal_User'' None (half_world (sconst [])) = Inl KeyError"
proof -
  have n: "''Normal_User'' \<notin>
      {''normal_user'', ''heavy_user'', ''business_user'', ''suspicious_user''}"
    by simp
  from unknown_profile_raises_KeyError [OF n, of "half_world (sconst [])" "Some 2"]
    unknown_profile_raises_KeyError [OF n, of "half_world (sconst [])" None]
  show ?thesis by simp
qed


subsection \<open>Session identifiers\<close>

lemma keeps_uuid4D: "keeps_uuid4 m \<Longrightarrow> m w = Inr (x, w') \<Longrightarrow> uuid4_state w' = uuid4_state w"
  unfolding keeps_uuid4_def by blast

lemma keeps_return: "keeps_uuid4 (gen_return x)"
  by (simp add: keeps_uuid4_def gen_return_def)

lemma keeps_raise: "keeps_uuid4 (gen_raise e)"
  by (simp add: keeps_uuid4_def gen_raise_def)

lemma keeps_bind:
  assumes "keeps_uuid4 m" and "\<And>x. keeps_uuid4 (f x)"
  shows "keeps_uuid4 (gen_bind m f)"
  unfolding keeps_uuid4_def
proof (intro allI impI)
  fix w y w''
  assume "gen_bind m f w = Inr (y, w'')"
  then obtain x w' where m: "m w = Inr (x, w')" and f: "f x w' = Inr (y, w'')"
    by (auto simp: gen_bind_def split: sum.splits)
  from keeps_uuid4D [OF assms(1) m] keeps_uuid4D [OF assms(2) f]
  show "uuid4_state w'' = uuid4_state w" by simp
qed

lemma keeps_random: "keeps_uuid4 random_random"
  by (auto simp: keeps_uuid4_def random_random_def)

lemma keeps_uniform: "keeps_uuid4 (uniform a b)"
  unfolding uniform_def by (intro keeps_bind keeps_random keeps_return)

lemma keeps_randbelow: "keeps_uuid4 (randbelow n)"
  unfolding randbelow_def by (intro keeps_bind keeps_random keeps_return)

lemma keeps_choice: "keeps_uuid4 (choice seq)"
  unfolding choice_def by (simp add: keeps_raise keeps_bind keeps_randbelow keeps_return)

lemma keeps_randint: "keeps_uuid4 (randint a b)"
  unfolding randint_def by (simp add: keeps_raise keeps_bind keeps_randbelow keeps_return)

lemma keeps_choices: "keeps_uuid4 (choices population weights)"
  unfolding choices_def Let_def
  by (simp add: keeps_raise keeps_bind keeps_random keeps_return)

lemma keeps_index0: "keeps_uuid4 (index0 xs)"
  unfolding index0_def by (simp add: keeps_raise keeps_return split: list.splits)

lemma keeps_dict_index: "keeps_uuid4 (dict_index d k)"
  unfolding dict_index_def by (simp add: keeps_raise keeps_return split: option.splits)

lemma keeps_index_all: "keeps_uuid4 (index_all d ks)"
  by (induction ks) (simp_all add: keeps_return keeps_bind keeps_dict_index)

lemmas keeps_intros =
  keeps_bind keeps_return keeps_raise keeps_random keeps_uniform keeps_randbelow keeps_choice
  keeps_randint keeps_choices keeps_index0 keeps_dict_index keeps_index_all

lemma keeps_generate_realistic_hour: "keeps_uuid4 generate_realistic_hour"
  unfolding generate_realistic_hour_def Let_def by (intro keeps_intros)

lemma keeps_generate_normal_transaction: "keeps_uuid4 (generate_normal_transaction profile)"
  unfolding generate_normal_transaction_def Let_def
  by (intro keeps_intros keeps_generate_realistic_hour | simp only: split_def)+

lemma keeps_fraud_transaction_of: "keeps_uuid4 (fraud_transaction_of pattern)"
  unfolding fraud_transaction_of_def
  by (simp add: keeps_intros)

lemma keeps_generate_fraud_transaction: "keeps_uuid4 generate_fraud_transaction"
  unfolding generate_fraud_transaction_def
  by (intro keeps_intros keeps_fraud_transaction_of)

lemma keeps_generate_transaction: "keeps_uuid4 (generate_transaction profile_name)"
  unfolding generate_transaction_def Let_def
  by (cases profile_name)
     (simp_all add: keeps_intros keeps_generate_fraud_transaction
        keeps_generate_normal_transaction)

text \<open>
  The session identifiers of every run: the transaction of round \<open>i\<close> carries the
  first eight characters of the \<open>i\<close>-th string that \<^verbatim>\<open>uuid4\<close> returns during the
  call. They are equal only where those strings begin alike.
\<close>

lemma session_loop_session_ids:
  "session_loop n name base_time acc w = Inr (ts, w') \<Longrightarrow>
   map session_id ts =
     map session_id acc @ map (\<lambda>u. Some (take 8 u)) (stake n (uuid4_state w))"
proof (induction n arbitrary: base_time acc w)
  case 0
  then show ?case by (simp add: gen_return_def)
next
  case (Suc n)
  from Suc.prems obtain minutes w1 t w2 where
    r: "randint 5 120 w = Inr (minutes, w1)" and
    g: "generate_transaction (Some name) w1 = Inr (t, w2)" and
    rest: "session_loop n name (base_time + timedelta_minutes minutes)
        (acc @ [t\<lparr>timestamp := Some (base_time + timedelta_minutes minutes),
                  session_id := Some (take 8 (shd (uuid4_state w2)))\<rparr>])
        (w2\<lparr>uuid4_state := stl (uuid4_state w2)\<rparr>) = Inr (ts, w')"
    by (auto simp: gen_bind_def uuid4_str_def Let_def split: sum.splits)
  from keeps_uuid4D [OF keeps_randint r] keeps_uuid4D [OF keeps_generate_transaction g]
  have u: "uuid4_state w2 = uuid4_state w" by simp
  from Suc.IH [OF rest] u show ?case by simp
qed

lemma session_ids_are_uuid4_prefixes:
  "generate_user_session name (Some n) w = Inr (ts, w') \<Longrightarrow>
   map session_id ts = map (\<lambda>u. Some (take 8 u)) (stake (nat n) (uuid4_state w))"
proof -
  assume "generate_user_session name (Some n) w = Inr (ts, w')"
  then have "session_loop (nat n) name (clock w) [] w = Inr (ts, w')"
    by (auto simp: generate_user_session_def gen_bind_def gen_return_def gen_raise_def
        dict_index_def datetime_now_def split: sum.splits option.splits)
  from session_loop_session_ids [OF this] show ?thesis by simp
qed

lemma first_uuid4_prefix: "take 8 ''1b9d6bcd-bbfd-4b2d-9b5d-ab8dfbbd4bed'' = ''1b9d6bcd''"
  by simp

lemma second_uuid4_prefix: "take 8 ''9c3f5a0e-7d21-4c8a-b6e4-0f1a2b3c4d5e'' = ''9c3f5a0e''"
  by simp

text \<open>
  C5. The claim is that all transactions of one session carry the same 8-character
  \<^verbatim>\<open>session_id\<close>. The code draws a new \<^verbatim>\<open>uuid4\<close> in every round of the loop: in a
  session of two transactions with the profile normal_user, the first transaction
  carries the first eight characters of the first identifier drawn and the second
  those of the second, and the two differ.
\<close>

theorem session_ids_differ:
  "generate_user_session ''normal_user'' (Some 2)
     (half_world
        (''1b9d6bcd-bbfd-4b2d-9b5d-ab8dfbbd4bed'' ##
         ''9c3f5a0e-7d21-4c8a-b6e4-0f1a2b3c4d5e'' ## sconst [])) =
   Inr ([generated 70 ''gas'' ''Austin, TX'' ''afternoon'' ''credit'' ''normal''
          \<lparr>timestamp := Some 3780000000, session_id := Some ''1b9d6bcd''\<rparr>,
         generated 70 ''gas'' ''Austin, TX'' ''afternoon'' ''credit'' ''normal''
          \<lparr>timestamp := Some 7560000000, session_id := Some ''9c3f5a0e''\<rparr>],
        half_world (sconst [])) \<and>
   ''1b9d6bcd'' \<noteq> ''9c3f5a0e''"
  unfolding session_half first_uuid4_prefix second_uuid4_prefix
  by simp

end
